theory Spec2Isabelle
  imports Main
begin

chapter \<open>The client of the TickTick MCP server\<close>

text \<open>
  A shallow embedding of \<open>src/ticktick-client.ts\<close>: the Display Normalizer
  (\<open>enhanceTaskForDisplay\<close>), the Date Classifier (\<open>isTaskDueToday\<close>, \<open>isTaskOverdue\<close>)
  with the part of JavaScript's \<open>Date\<close> it relies on, and the class \<open>TickTickClient\<close>
  (session, gateway operations, aggregation) over an explicit client state and a remote
  service given by its answers.
\<close>

section \<open>Data model (types.ts)\<close>

text \<open>
  The task and project records follow the zod schemas of the repository.  An optional
  field \<open>f?: T\<close> is a \<open>T option\<close> (\<open>None\<close> is \<open>undefined\<close>).  A field of
  type \<open>number\<close> is an \<open>int\<close>: the development covers integer-valued numbers,
  which is what the remote service sends for priorities, statuses and sort orders.
  The field \<open>id\<close> is written \<open>id'\<close>, since \<open>id\<close> is the identity function of HOL.
\<close>

record Reminder =
  reminder_id :: string
  reminder_trigger :: string

record ChecklistItem =
  item_id :: string
  item_title :: string
  item_status :: "int option"
  item_completedTime :: "string option"
  item_isAllDay :: "bool option"
  item_sortOrder :: "int option"
  item_startDate :: "string option"
  item_timeZone :: "string option"

record TickTickTask =
  id' :: string
  title :: string
  content :: "string option"
  desc :: "string option"
  allDay :: "bool option"
  startDate :: "string option"
  dueDate :: "string option"
  timeZone :: "string option"
  isFloating :: "bool option"
  reminder :: "string option"
  reminders :: "Reminder list option"
  exDate :: "string list option"
  completedTime :: "string option"
  completedUserId :: "string option"
  createdTime :: "string option"
  creator :: "string option"
  etag :: "string option"
  modifiedTime :: "string option"
  projectId :: string
  sortOrder :: "int option"
  status :: "int option"
  tags :: "string list option"
  priority :: "int option"
  progress :: "int option"
  assignee :: "string option"
  isDirty :: "bool option"
  local :: "bool option"
  repeatFlag :: "string option"
  items :: "ChecklistItem list option"

text \<open>
  The object \<open>enhanceTaskForDisplay\<close> returns: every property of the task, and
  \<open>priorityText\<close>.
\<close>

record EnhancedTask = TickTickTask +
  priorityText :: string

record TickTickProject =
  project_id :: string
  project_name :: string

record TickTickConfig =
  username :: "string option"
  password :: "string option"
  accessToken :: "string option"
  refreshToken :: "string option"
  clientId :: "string option"
  clientSecret :: "string option"

section \<open>JavaScript values the code relies on\<close>

text \<open>
  Truthiness, as \<open>if (x)\<close>, \<open>!x\<close> and \<open>x ? a : b\<close> read it: \<open>undefined\<close> is falsy;
  a string is falsy when it is empty, a number when it is zero, a boolean when it is
  \<open>false\<close>.
\<close>

definition truthyStr :: "string option \<Rightarrow> bool" where
  "truthyStr v = (case v of None \<Rightarrow> False | Some s \<Rightarrow> s \<noteq> [])"

definition truthyNum :: "int option \<Rightarrow> bool" where
  "truthyNum v = (case v of None \<Rightarrow> False | Some n \<Rightarrow> n \<noteq> 0)"

definition truthyBool :: "bool option \<Rightarrow> bool" where
  "truthyBool v = (case v of None \<Rightarrow> False | Some b \<Rightarrow> b)"

text \<open>
  Numbers as text.  A template literal \<open>${n}\<close> applies \<open>Number::toString\<close> (radix 10) of
  the ECMAScript specification to the Number \<open>n\<close>.  An integer of the model stands for
  the Number of that value; \<open>isNumber\<close> says that there is one: a 53-bit significand
  times a power of two, below \<open>2^1024\<close>.

  Up to \<open>2^53 - 1\<close> (\<open>Number.MAX_SAFE_INTEGER\<close>) the text is the decimal numeral of the
  integer.  From \<open>2^53\<close> on, Numbers are more than \<open>1\<close> apart and the text has the
  digits of the decimal \<open>s * 10^j\<close> with the fewest significant digits among those whose
  nearest Number is \<open>x\<close> (\<open>roundsTo\<close>: within half the distance to the neighbouring
  Numbers, the midpoints included when the significand of \<open>x\<close> is even), the closest
  to \<open>x\<close> if there are two (the choice of the engines, which the specification
  recommends).  \<open>shortestDecimal\<close> looks for it among the multiples of \<open>10^j\<close> next to
  \<open>x\<close>, from the largest \<open>j\<close> down to \<open>0\<close>, where \<open>x\<close> itself is found; \<open>ulpExponent x\<close>
  is the exponent of the distance between \<open>x\<close> and the next Number.  A decimal of at
  most 21 digits is written out; a longer one is written in exponent notation,
  \<open>d.ddde+nn\<close>.
\<close>

definition digitChar :: "nat \<Rightarrow> char" where
  "digitChar n = ''0123456789'' ! n"

function decimalDigits :: "int \<Rightarrow> string" where
  "decimalDigits x =
     (if x < 10 then [digitChar (nat x)]
      else decimalDigits (x div 10) @ [digitChar (nat (x mod 10))])"
  by pat_completeness auto
termination
  by (relation "measure nat") auto

declare decimalDigits.simps [simp del]

definition maxSafeInteger :: int where
  "maxSafeInteger = 9007199254740991"

function bitLength :: "int \<Rightarrow> nat" where
  "bitLength x = (if x \<le> 0 then 0 else Suc (bitLength (x div 2)))"
  by pat_completeness auto
termination
  by (relation "measure nat") auto

declare bitLength.simps [simp del]

definition ulpExponent :: "int \<Rightarrow> nat" where
  "ulpExponent x = bitLength x - 53"

definition isNumber :: "int \<Rightarrow> bool" where
  "isNumber n = (\<bar>n\<bar> < 2 ^ 1024 \<and> 2 ^ ulpExponent \<bar>n\<bar> dvd n)"

definition roundsTo :: "int \<Rightarrow> int \<Rightarrow> bool" where
  "roundsTo x v =
     (let e = ulpExponent x;
          below = 2 * x - (if x = 2 ^ (bitLength x - 1) then 2 ^ (e - 1) else 2 ^ e);
          above = 2 * x + 2 ^ e
      in if even (x div 2 ^ e) then below \<le> 2 * v \<and> 2 * v \<le> above
         else below < 2 * v \<and> 2 * v < above)"

function shortestDecimal :: "int \<Rightarrow> nat \<Rightarrow> int \<times> nat" where
  "shortestDecimal x j =
     (let p = 10 ^ j;
          lo = (x div p) * p;
          hi = lo + p;
          okLo = (0 < lo \<and> roundsTo x lo);
          okHi = roundsTo x hi
      in if okLo \<and> okHi
         then (if x - lo < hi - x then lo
               else if hi - x < x - lo then hi
               else if even (x div p) then lo else hi, j)
         else if okLo then (lo, j)
         else if okHi then (hi, j)
         else if j = 0 then (x, 0)
         else shortestDecimal x (j - 1))"
  by pat_completeness auto
termination
  by (relation "measure snd") auto

declare shortestDecimal.simps [simp del]

definition exponentForm :: "string \<Rightarrow> nat \<Rightarrow> string" where
  "exponentForm ds n =
     (if length ds = 1 then ds @ ''e+'' @ decimalDigits (int n - 1)
      else hd ds # CHR ''.'' # tl ds @ ''e+'' @ decimalDigits (int n - 1))"

definition largeToString :: "int \<Rightarrow> string" where
  "largeToString x =
     (case shortestDecimal x (length (decimalDigits x)) of
        (v, j) \<Rightarrow>
          let ds = decimalDigits v; n = length ds
          in if n \<le> 21 then ds else exponentForm (take (n - j) ds) n)"

definition positiveToString :: "int \<Rightarrow> string" where
  "positiveToString x =
     (if x \<le> maxSafeInteger then decimalDigits x else largeToString x)"

definition numberToString :: "int \<Rightarrow> string" where
  "numberToString n =
     (if n < 0 then CHR ''-'' # positiveToString (- n) else positiveToString n)"

text \<open>
  The value of a string of decimal digits, read from the left.
\<close>

definition decimalValue :: "string \<Rightarrow> int" where
  "decimalValue ds = foldl (\<lambda>a c. 10 * a + (int (of_char c) - 48)) 0 ds"

section \<open>Display Normalizer (ticktick-client.ts, enhanceTaskForDisplay)\<close>

text \<open>
  The \<open>switch\<close> compares \<open>task.priority\<close> with \<open>0\<close>, \<open>1\<close>, \<open>3\<close> and \<open>5\<close> by strict
  equality, in this order; \<open>undefined\<close> matches none of them and reaches \<open>default\<close>,
  which tests the priority's truthiness.  The result spreads the copy of the task,
  adds \<open>priorityText\<close> and writes \<open>dueDate\<close> again with the task's own value.
\<close>

definition enhanceTaskForDisplay :: "TickTickTask \<Rightarrow> EnhancedTask" where
  "enhanceTaskForDisplay task =
     (let enhanced = task;
          priorityText0 =
            (if priority task = Some 0 then ''None''
             else if priority task = Some 1 then ''Low''
             else if priority task = Some 3 then ''Medium''
             else if priority task = Some 5 then ''High''
             else (case priority task of
                     Some p \<Rightarrow> if truthyNum (Some p)
                               then ''Custom ('' @ numberToString p @ '')''
                               else ''None''
                   | None \<Rightarrow> ''None''))
      in TickTickTask.extend (enhanced\<lparr>dueDate := dueDate task\<rparr>)
           (EnhancedTask.fields priorityText0))"

section \<open>JavaScript dates (the built-in \<open>Date\<close> the classifiers rely on)\<close>

text \<open>
  A time value is a number of milliseconds since 1970-01-01T00:00:00Z.  The calendar
  follows the abstract operations of the ECMAScript specification: \<open>Day\<close>,
  \<open>DaysInYear\<close>, \<open>DayFromYear\<close>, \<open>YearFromTime\<close> (the largest year whose first
  day is not after the day), \<open>InLeapYear\<close>, \<open>MonthFromTime\<close> and \<open>DateFromTime\<close>
  (the table of month starts).  \<open>YearFromDay\<close> computes the year by searching
  downwards and then upwards from an estimate.
\<close>

definition msPerDay :: int where "msPerDay = 86400000"

definition Day :: "int \<Rightarrow> int" where "Day t = t div msPerDay"

definition DaysInYear :: "int \<Rightarrow> int" where
  "DaysInYear y =
     (if y mod 4 \<noteq> 0 then 365
      else if y mod 100 \<noteq> 0 then 366
      else if y mod 400 \<noteq> 0 then 365
      else 366)"

definition DayFromYear :: "int \<Rightarrow> int" where
  "DayFromYear y =
     365 * (y - 1970) + (y - 1969) div 4 - (y - 1901) div 100 + (y - 1601) div 400"

lemma div_succ:
  fixes a k :: int
  assumes "0 < k"
  shows "(a + 1) div k = a div k + (if k dvd a + 1 then 1 else 0)"
proof (cases "k dvd a + 1")
  case True
  then obtain q where q: "a + 1 = k * q" by (auto simp: dvd_def)
  have "a = k * (q - 1) + (k - 1)" using q by (simp add: algebra_simps)
  then have "a div k = q - 1" using assms by (intro int_div_pos_eq [of a k "q - 1" "k - 1"]) auto
  moreover have "(a + 1) div k = q" using q assms by simp
  ultimately show ?thesis using True by simp
next
  case False
  have "a mod k \<noteq> k - 1"
  proof
    assume h: "a mod k = k - 1"
    have "a + 1 = k * (a div k) + (a mod k + 1)" by simp
    then have "a + 1 = k * (a div k + 1)" unfolding h by (simp add: algebra_simps)
    then show False using False by (metis dvd_triv_left)
  qed
  moreover have "0 \<le> a mod k" "a mod k < k" using assms by simp_all
  ultimately have "a mod k + 1 < k" by linarith
  moreover have "a + 1 = k * (a div k) + (a mod k + 1)" by simp
  ultimately have "(a + 1) div k = a div k"
    using \<open>0 \<le> a mod k\<close> by (intro int_div_pos_eq [of "a + 1" k "a div k" "a mod k + 1"]) auto
  then show ?thesis using False by simp
qed

lemma DayFromYear_Suc: "DayFromYear (y + 1) = DayFromYear y + DaysInYear y"
proof -
  have a: "(y + 1 - 1969) div 4 = (y - 1969) div 4 + (if 4 dvd y then 1 else 0)"
    using div_succ [of 4 "y - 1969"] dvd_diff_left_iff [of 4 1968 y] by simp
  have b: "(y + 1 - 1901) div 100 = (y - 1901) div 100 + (if 100 dvd y then 1 else 0)"
    using div_succ [of 100 "y - 1901"] dvd_diff_left_iff [of 100 1900 y] by simp
  have c: "(y + 1 - 1601) div 400 = (y - 1601) div 400 + (if 400 dvd y then 1 else 0)"
    using div_succ [of 400 "y - 1601"] dvd_diff_left_iff [of 400 1600 y] by simp
  have d: "400 dvd y \<Longrightarrow> 100 dvd y" "100 dvd y \<Longrightarrow> 4 dvd y"
    by (erule dvd_trans [rotated], simp)+
  show ?thesis
    unfolding DayFromYear_def DaysInYear_def a b c mod_eq_0_iff_dvd
    using d by auto
qed

lemma DaysInYear_bounds: "365 \<le> DaysInYear y" "DaysInYear y \<le> 366"
  by (simp_all add: DaysInYear_def)

function yearDown :: "int \<Rightarrow> int \<Rightarrow> int" where
  "yearDown d y = (if DayFromYear y \<le> d then y else yearDown d (y - 1))"
  by pat_completeness auto
termination
proof (relation "measure (\<lambda>(d, y). nat (DayFromYear y - d))")
  show "wf (measure (\<lambda>(d, y). nat (DayFromYear y - d)))" by simp
next
  fix d y :: int
  assume "\<not> DayFromYear y \<le> d"
  moreover have "DayFromYear y = DayFromYear (y - 1) + DaysInYear (y - 1)"
    using DayFromYear_Suc [of "y - 1"] by simp
  ultimately show "((d, y - 1), (d, y)) \<in> measure (\<lambda>(d, y). nat (DayFromYear y - d))"
    using DaysInYear_bounds(1) [of "y - 1"] by simp
qed

function yearUp :: "int \<Rightarrow> int \<Rightarrow> int" where
  "yearUp d y = (if d < DayFromYear (y + 1) then y else yearUp d (y + 1))"
  by pat_completeness auto
termination
proof (relation "measure (\<lambda>(d, y). nat (d + 1 - DayFromYear (y + 1)))")
  show "wf (measure (\<lambda>(d, y). nat (d + 1 - DayFromYear (y + 1))))" by simp
next
  fix d y :: int
  assume "\<not> d < DayFromYear (y + 1)"
  moreover have "DayFromYear (y + 1 + 1) = DayFromYear (y + 1) + DaysInYear (y + 1)"
    by (rule DayFromYear_Suc)
  ultimately show "((d, y + 1), (d, y)) \<in> measure (\<lambda>(d, y). nat (d + 1 - DayFromYear (y + 1)))"
    using DaysInYear_bounds(1) [of "y + 1"] by simp
qed

declare yearDown.simps [simp del] yearUp.simps [simp del]

definition YearFromDay :: "int \<Rightarrow> int" where
  "YearFromDay d = yearUp d (yearDown d (1970 + (400 * d) div 146097))"

lemma yearDown_le: "DayFromYear (yearDown d y) \<le> d"
  by (induction d y rule: yearDown.induct) (subst yearDown.simps, simp)

lemma yearUp_gt: "d < DayFromYear (yearUp d y + 1)"
  by (induction d y rule: yearUp.induct) (subst yearUp.simps, simp)

lemma yearUp_le: "DayFromYear y \<le> d \<Longrightarrow> DayFromYear (yearUp d y) \<le> d"
  by (induction d y rule: yearUp.induct) (subst yearUp.simps, simp)

lemma YearFromDay_spec:
  "DayFromYear (YearFromDay d) \<le> d" "d < DayFromYear (YearFromDay d + 1)"
  by (simp_all add: YearFromDay_def yearUp_gt yearUp_le yearDown_le)

definition InLeapYear :: "int \<Rightarrow> int" where
  "InLeapYear y = (if DaysInYear y = 366 then 1 else 0)"

definition monthStart :: "int \<Rightarrow> int \<Rightarrow> int" where
  "monthStart leap m =
     (if m = 0 then 0 else if m = 1 then 31 else if m = 2 then 59 + leap
      else if m = 3 then 90 + leap else if m = 4 then 120 + leap
      else if m = 5 then 151 + leap else if m = 6 then 181 + leap
      else if m = 7 then 212 + leap else if m = 8 then 243 + leap
      else if m = 9 then 273 + leap else if m = 10 then 304 + leap
      else 334 + leap)"

definition monthOfDay :: "int \<Rightarrow> int \<Rightarrow> int" where
  "monthOfDay leap dwy =
     (if dwy < 31 then 0 else if dwy < 59 + leap then 1 else if dwy < 90 + leap then 2
      else if dwy < 120 + leap then 3 else if dwy < 151 + leap then 4
      else if dwy < 181 + leap then 5 else if dwy < 212 + leap then 6
      else if dwy < 243 + leap then 7 else if dwy < 273 + leap then 8
      else if dwy < 304 + leap then 9 else if dwy < 334 + leap then 10
      else 11)"

definition YearFromTime :: "int \<Rightarrow> int" where
  "YearFromTime t = YearFromDay (Day t)"

definition DayWithinYear :: "int \<Rightarrow> int" where
  "DayWithinYear t = Day t - DayFromYear (YearFromTime t)"

definition MonthFromTime :: "int \<Rightarrow> int" where
  "MonthFromTime t = monthOfDay (InLeapYear (YearFromTime t)) (DayWithinYear t)"

definition DateFromTime :: "int \<Rightarrow> int" where
  "DateFromTime t =
     DayWithinYear t + 1 - monthStart (InLeapYear (YearFromTime t)) (MonthFromTime t)"

lemma DayWithinYear_bounds:
  "0 \<le> DayWithinYear t" "DayWithinYear t < 365 + InLeapYear (YearFromTime t)"
proof -
  let ?y = "YearFromTime t"
  show "0 \<le> DayWithinYear t"
    using YearFromDay_spec(1) [of "Day t"] by (simp add: DayWithinYear_def YearFromTime_def)
  have "Day t < DayFromYear ?y + DaysInYear ?y"
    using YearFromDay_spec(2) [of "Day t"] by (simp add: YearFromTime_def DayFromYear_Suc)
  moreover have "DaysInYear ?y = 365 + InLeapYear ?y"
    by (simp add: InLeapYear_def DaysInYear_def)
  ultimately show "DayWithinYear t < 365 + InLeapYear (YearFromTime t)"
    by (simp add: DayWithinYear_def)
qed

lemma InLeapYear_cases: "InLeapYear y = 0 \<or> InLeapYear y = 1"
  by (simp add: InLeapYear_def)

lemma monthOfDay_bounds: "0 \<le> monthOfDay l d" "monthOfDay l d \<le> 11"
  by (simp_all add: monthOfDay_def)

lemma date_bounds_aux:
  assumes "l = 0 \<or> l = 1" "0 \<le> d" "d < 365 + l"
  shows "1 \<le> d + 1 - monthStart l (monthOfDay l d)" "d + 1 - monthStart l (monthOfDay l d) \<le> 31"
  using assms by (auto simp: monthOfDay_def monthStart_def)

lemma MonthFromTime_bounds: "0 \<le> MonthFromTime t" "MonthFromTime t \<le> 11"
  by (simp_all add: MonthFromTime_def monthOfDay_bounds)

lemma DateFromTime_bounds: "1 \<le> DateFromTime t" "DateFromTime t \<le> 31"
  unfolding DateFromTime_def MonthFromTime_def
  using date_bounds_aux [OF InLeapYear_cases DayWithinYear_bounds] by blast+

lemma div_lower: "0 < k \<Longrightarrow> k * (x div k) \<le> (x::int)"
  by (metis div_mult_mod_eq mult.commute pos_mod_sign le_add_same_cancel1)

lemma div_upper: "0 < k \<Longrightarrow> (x::int) < k * (x div k) + k"
  by (metis add.commute add_less_cancel_left div_mult_mod_eq mult.commute pos_mod_bound)

lemma DayFromYear_linear:
  "146097 * y - 287811697 < 400 * DayFromYear y"
  "400 * DayFromYear y < 146097 * y - 287810497"
proof -
  define a where "a = (y - 1969) div 4"
  define b where "b = (y - 1901) div 100"
  define c where "c = (y - 1601) div 400"
  have p: "(0::int) < 4" "(0::int) < 100" "(0::int) < 400" by simp_all
  have up: "y - 1969 < 4 * a + 4" "y - 1901 < 100 * b + 100" "y - 1601 < 400 * c + 400"
    unfolding a_def b_def c_def
    using div_upper [OF p(1)] div_upper [OF p(2)] div_upper [OF p(3)] by blast+
  have lo: "4 * a \<le> y - 1969" "100 * b \<le> y - 1901" "400 * c \<le> y - 1601"
    unfolding a_def b_def c_def
    using div_lower [OF p(1)] div_lower [OF p(2)] div_lower [OF p(3)] by blast+
  have eq: "400 * DayFromYear y = 146000 * y - 287620000 + 400 * a - 400 * b + 400 * c"
    by (simp add: DayFromYear_def a_def b_def c_def)
  show "146097 * y - 287811697 < 400 * DayFromYear y"
    unfolding eq using up(1) lo(2) up(3) by linarith
  show "400 * DayFromYear y < 146097 * y - 287810497"
    unfolding eq using lo(1) up(2) lo(3) by linarith
qed

lemma YearFromDay_bounds:
  assumes "- 100000000 \<le> d" "d \<le> 100000000"
  shows "- 999999 \<le> YearFromDay d" "YearFromDay d \<le> 999999"
proof -
  let ?y = "YearFromDay d"
  have up: "DayFromYear ?y \<le> 100000000" using YearFromDay_spec(1) [of d] assms by simp
  have lo: "- 100000000 < DayFromYear (?y + 1)" using YearFromDay_spec(2) [of d] assms by simp
  show "?y \<le> 999999" using up DayFromYear_linear(1) [of ?y] by linarith
  define z where "z = ?y + 1"
  have "- 999998 \<le> z" using lo DayFromYear_linear(2) [of z] unfolding z_def [symmetric] by linarith
  then show "- 999999 \<le> ?y" by (simp add: z_def)
qed

subsection \<open>Fixed-width decimal digits and the order of strings\<close>

text \<open>
  \<open>fixedDigits w n\<close> is \<open>n\<close> as \<open>w\<close> decimal digits.  \<open>jsStrLess\<close> is the
  \<open><\<close> of JavaScript on strings: the code units are compared from the left, and a
  proper prefix is smaller.
\<close>

function fixedDigits :: "nat \<Rightarrow> nat \<Rightarrow> string" where
  "fixedDigits w n =
     (if w = 0 then [] else fixedDigits (w - 1) (n div 10) @ [digitChar (n mod 10)])"
  by pat_completeness auto
termination
  by (relation "measure (\<lambda>(w, n). w)") auto

declare fixedDigits.simps [simp del]

lemma fixedDigits_0 [simp]: "fixedDigits 0 n = []"
  by (subst fixedDigits.simps) simp

lemma fixedDigits_Suc [simp]:
  "fixedDigits (Suc w) n = fixedDigits w (n div 10) @ [digitChar (n mod 10)]"
  by (subst fixedDigits.simps) simp

fun jsStrLess :: "string \<Rightarrow> string \<Rightarrow> bool" where
  "jsStrLess [] [] = False"
| "jsStrLess [] (y # ys) = True"
| "jsStrLess (x # xs) [] = False"
| "jsStrLess (x # xs) (y # ys) =
     (if (of_char x :: nat) < of_char y then True
      else if (of_char y :: nat) < of_char x then False
      else jsStrLess xs ys)"

lemma digit_cases:
  fixes dgt :: nat
  assumes "dgt < 10"
  shows "dgt = 9 \<or> dgt = 8 \<or> dgt = 7 \<or> dgt = 6 \<or> dgt = 5 \<or> dgt = 4 \<or> dgt = 3 \<or> dgt = 2
    \<or> dgt = 1 \<or> dgt = 0"
  using assms by arith

lemma of_char_digitChar: "n < 10 \<Longrightarrow> (of_char (digitChar n) :: nat) = 48 + n"
  by (drule digit_cases) (elim disjE; simp add: digitChar_def)

lemma digitChar_inj: "a < 10 \<Longrightarrow> b < 10 \<Longrightarrow> (digitChar a = digitChar b) = (a = b)"
  by (metis of_char_digitChar add_left_cancel)

lemma digitChar_not_sep: "n < 10 \<Longrightarrow> digitChar n \<notin> {CHR ''T'', CHR ''-'', CHR ''+''}"
  by (drule digit_cases) (elim disjE; simp add: digitChar_def)

lemma length_fixedDigits [simp]: "length (fixedDigits w n) = w"
  by (induction w arbitrary: n) simp_all

lemma fixedDigits_chars: "c \<in> set (fixedDigits w n) \<Longrightarrow> c \<notin> {CHR ''T'', CHR ''-'', CHR ''+''}"
proof (induction w arbitrary: n)
  case 0
  then show ?case by simp
next
  case (Suc w)
  have "n mod 10 < 10" by simp
  from digitChar_not_sep [OF this] Suc show ?case by auto
qed

lemma jsStrLess_irrefl [simp]: "\<not> jsStrLess a a"
  by (induction a) simp_all

lemma jsStrLess_append:
  "length a = length b \<Longrightarrow>
     jsStrLess (a @ c) (b @ d) = (jsStrLess a b \<or> (a = b \<and> jsStrLess c d))"
proof (induction a b rule: list_induct2)
  case Nil
  then show ?case by simp
next
  case (Cons x xs y ys)
  have "(of_char x :: nat) = of_char y \<longleftrightarrow> x = y" by (simp add: inj_eq)
  with Cons show ?case by auto
qed

lemma jsStrLess_digit:
  "a < 10 \<Longrightarrow> b < 10 \<Longrightarrow> jsStrLess [digitChar a] [digitChar b] = (a < b)"
  by (simp add: of_char_digitChar)

lemma fixedDigits_inj:
  "n < 10 ^ w \<Longrightarrow> m < 10 ^ w \<Longrightarrow> (fixedDigits w n = fixedDigits w m) = (n = m)"
proof (induction w arbitrary: n m)
  case 0
  then show ?case by simp
next
  case (Suc w)
  have d: "n div 10 < 10 ^ w" "m div 10 < 10 ^ w" using Suc.prems by (simp_all add: less_mult_imp_div_less)
  have r: "n mod 10 < 10" "m mod 10 < 10" by simp_all
  have "(fixedDigits (Suc w) n = fixedDigits (Suc w) m) =
        (n div 10 = m div 10 \<and> n mod 10 = m mod 10)"
    using Suc.IH [OF d] digitChar_inj [OF r] by simp
  also have "\<dots> = (n = m)" by (metis div_mult_mod_eq)
  finally show ?case .
qed

lemma fixedDigits_less:
  "n < 10 ^ w \<Longrightarrow> m < 10 ^ w \<Longrightarrow> jsStrLess (fixedDigits w n) (fixedDigits w m) = (n < m)"
proof (induction w arbitrary: n m)
  case 0
  then show ?case by simp
next
  case (Suc w)
  have d: "n div 10 < 10 ^ w" "m div 10 < 10 ^ w" using Suc.prems by (simp_all add: less_mult_imp_div_less)
  have r: "n mod 10 < 10" "m mod 10 < 10" by simp_all
  have "jsStrLess (fixedDigits (Suc w) n) (fixedDigits (Suc w) m) =
        (n div 10 < m div 10 \<or> (n div 10 = m div 10 \<and> n mod 10 < m mod 10))"
    using Suc.IH [OF d] fixedDigits_inj [OF d] jsStrLess_digit [OF r]
    by (simp add: jsStrLess_append)
  also have "\<dots> = (n < m)"
  proof -
    have "n = 10 * (n div 10) + n mod 10" "m = 10 * (m div 10) + m mod 10" by simp_all
    then show ?thesis using r by linarith
  qed
  finally show ?case .
qed

subsection \<open>\<open>toISOString\<close> and \<open>split('T')[0]\<close>\<close>

text \<open>
  \<open>Date.prototype.toISOString\<close> writes \<open>YYYY-MM-DDTHH:mm:ss.sssZ\<close>; a year outside
  \<open>0..9999\<close> is written with a sign and six digits.  \<open>isoDatePart\<close> is the text
  before the \<open>T\<close>, \<open>isoTimePart\<close> the text after it.  \<open>splitT0 s\<close> is
  \<open>s.split('T')[0]\<close>: the text before the first \<open>T\<close>.  \<open>utcDate\<close> is the UTC
  calendar date (year, month, day of the month) of a time value, and \<open>dateBefore\<close>
  the order of calendar dates.
\<close>

definition yearString :: "int \<Rightarrow> string" where
  "yearString y =
     (if 0 \<le> y \<and> y \<le> 9999 then fixedDigits 4 (nat y)
      else (if y < 0 then ''-'' else ''+'') @ fixedDigits 6 (nat \<bar>y\<bar>))"

definition HourFromTime :: "int \<Rightarrow> int" where "HourFromTime t = (t div 3600000) mod 24"
definition MinFromTime :: "int \<Rightarrow> int" where "MinFromTime t = (t div 60000) mod 60"
definition SecFromTime :: "int \<Rightarrow> int" where "SecFromTime t = (t div 1000) mod 60"
definition msFromTime :: "int \<Rightarrow> int" where "msFromTime t = t mod 1000"

definition isoDatePart :: "int \<Rightarrow> string" where
  "isoDatePart t =
     yearString (YearFromTime t) @ ''-'' @ fixedDigits 2 (nat (MonthFromTime t + 1))
       @ ''-'' @ fixedDigits 2 (nat (DateFromTime t))"

definition isoTimePart :: "int \<Rightarrow> string" where
  "isoTimePart t =
     fixedDigits 2 (nat (HourFromTime t)) @ '':'' @ fixedDigits 2 (nat (MinFromTime t))
       @ '':'' @ fixedDigits 2 (nat (SecFromTime t)) @ ''.'' @ fixedDigits 3 (nat (msFromTime t))
       @ ''Z''"

definition splitT0 :: "string \<Rightarrow> string" where
  "splitT0 s = takeWhile (\<lambda>c. c \<noteq> CHR ''T'') s"

definition utcDate :: "int \<Rightarrow> int \<times> int \<times> int" where
  "utcDate t = (YearFromTime t, MonthFromTime t + 1, DateFromTime t)"

definition dateBefore :: "int \<times> int \<times> int \<Rightarrow> int \<times> int \<times> int \<Rightarrow> bool" where
  "dateBefore a b =
     (case (a, b) of ((ya, ma, da), (yb, mb, db)) \<Rightarrow>
        ya < yb \<or> (ya = yb \<and> (ma < mb \<or> (ma = mb \<and> da < db))))"

lemma yearString_chars: "c \<in> set (yearString y) \<Longrightarrow> c \<noteq> CHR ''T''"
  using fixedDigits_chars by (fastforce simp: yearString_def split: if_splits)

lemma isoDatePart_chars: "c \<in> set (isoDatePart t) \<Longrightarrow> c \<noteq> CHR ''T''"
  using fixedDigits_chars yearString_chars by (fastforce simp: isoDatePart_def)

lemma splitT0_iso: "splitT0 (isoDatePart t @ ''T'' @ rest) = isoDatePart t"
  unfolding splitT0_def using isoDatePart_chars [of _ t]
  by (subst takeWhile_append2) auto

lemma pow10: "(10::nat) ^ 2 = 100" "(10::nat) ^ 4 = 10000" "(10::nat) ^ 6 = 1000000"
  by simp_all

lemma length_yearString: "length (yearString y) = (if 0 \<le> y \<and> y \<le> 9999 then 4 else 7)"
  by (simp add: yearString_def)

lemma yearString_inj:
  assumes "\<bar>ya\<bar> \<le> 999999" "\<bar>yb\<bar> \<le> 999999"
  shows "(yearString ya = yearString yb) = (ya = yb)"
proof
  assume eq: "yearString ya = yearString yb"
  then have len: "length (yearString ya) = length (yearString yb)" by simp
  show "ya = yb"
  proof (cases "0 \<le> ya \<and> ya \<le> 9999")
    case True
    then have b: "0 \<le> yb \<and> yb \<le> 9999" using len by (simp add: length_yearString split: if_splits)
    have "nat ya < 10 ^ 4" "nat yb < 10 ^ 4" using True b unfolding pow10 by linarith+
    from fixedDigits_inj [OF this] eq True b have "nat ya = nat yb" by (simp add: yearString_def)
    with True b show ?thesis by linarith
  next
    case False
    then have b: "\<not> (0 \<le> yb \<and> yb \<le> 9999)" using len by (simp add: length_yearString split: if_splits)
    have s: "(ya < 0) = (yb < 0)" and f: "fixedDigits 6 (nat \<bar>ya\<bar>) = fixedDigits 6 (nat \<bar>yb\<bar>)"
      using eq False b by (auto simp: yearString_def split: if_splits)
    have "nat \<bar>ya\<bar> < 10 ^ 6" "nat \<bar>yb\<bar> < 10 ^ 6" using assms unfolding pow10 by linarith+
    from fixedDigits_inj [OF this] f have "\<bar>ya\<bar> = \<bar>yb\<bar>" by simp
    with s show ?thesis by linarith
  qed
qed simp

lemma dateString_inj:
  assumes "\<bar>ya\<bar> \<le> 999999" "\<bar>yb\<bar> \<le> 999999" "ma < 100" "mb < 100" "da < 100" "db < 100"
  shows "(yearString ya @ ''-'' @ fixedDigits 2 ma @ ''-'' @ fixedDigits 2 da
          = yearString yb @ ''-'' @ fixedDigits 2 mb @ ''-'' @ fixedDigits 2 db)
         = (ya = yb \<and> ma = mb \<and> da = db)"
proof
  assume eq: "yearString ya @ ''-'' @ fixedDigits 2 ma @ ''-'' @ fixedDigits 2 da
          = yearString yb @ ''-'' @ fixedDigits 2 mb @ ''-'' @ fixedDigits 2 db"
  then have "length (yearString ya @ ''-'' @ fixedDigits 2 ma @ ''-'' @ fixedDigits 2 da)
          = length (yearString yb @ ''-'' @ fixedDigits 2 mb @ ''-'' @ fixedDigits 2 db)" by simp
  then have len: "length (yearString ya) = length (yearString yb)" by simp
  from eq len have y: "yearString ya = yearString yb"
    and r: "fixedDigits 2 ma @ ''-'' @ fixedDigits 2 da = fixedDigits 2 mb @ ''-'' @ fixedDigits 2 db"
    by simp_all
  from r have m: "fixedDigits 2 ma = fixedDigits 2 mb" and d: "fixedDigits 2 da = fixedDigits 2 db"
    by simp_all
  have "ma < 10 ^ 2" "mb < 10 ^ 2" "da < 10 ^ 2" "db < 10 ^ 2" using assms by simp_all
  then show "ya = yb \<and> ma = mb \<and> da = db"
    using y m d yearString_inj [OF assms(1,2)] fixedDigits_inj by blast
qed simp

lemma dateString_less:
  assumes "0 \<le> ya" "ya \<le> 9999" "0 \<le> yb" "yb \<le> 9999" "ma < 100" "mb < 100" "da < 100" "db < 100"
  shows "jsStrLess (yearString ya @ ''-'' @ fixedDigits 2 ma @ ''-'' @ fixedDigits 2 da)
           (yearString yb @ ''-'' @ fixedDigits 2 mb @ ''-'' @ fixedDigits 2 db)
         = (ya < yb \<or> (ya = yb \<and> (ma < mb \<or> (ma = mb \<and> da < db))))"
proof -
  have y: "yearString ya = fixedDigits 4 (nat ya)" "yearString yb = fixedDigits 4 (nat yb)"
    using assms by (simp_all add: yearString_def)
  have by4: "nat ya < 10 ^ 4" "nat yb < 10 ^ 4" using assms unfolding pow10 by linarith+
  have by2: "ma < 10 ^ 2" "mb < 10 ^ 2" "da < 10 ^ 2" "db < 10 ^ 2" using assms by simp_all
  have sep: "\<And>u v. jsStrLess (''-'' @ u) (''-'' @ v) = jsStrLess u v" by simp
  have "jsStrLess (fixedDigits 4 (nat ya) @ ''-'' @ fixedDigits 2 ma @ ''-'' @ fixedDigits 2 da)
           (fixedDigits 4 (nat yb) @ ''-'' @ fixedDigits 2 mb @ ''-'' @ fixedDigits 2 db)
        = (nat ya < nat yb \<or> (nat ya = nat yb \<and> (ma < mb \<or> (ma = mb \<and> da < db))))"
    apply (subst jsStrLess_append, simp)
    apply (subst sep)
    apply (subst jsStrLess_append, simp)
    apply (subst sep)
    apply (simp only: fixedDigits_less [OF by4] fixedDigits_inj [OF by4]
        fixedDigits_less [OF by2(1,2)] fixedDigits_inj [OF by2(1,2)] fixedDigits_less [OF by2(3,4)])
    done
  then show ?thesis using assms(1,3) unfolding y by (auto simp: nat_less_eq_zless nat_eq_iff)
qed

text \<open>
  The calendar date determines the day number and conversely, so two instants have the
  same UTC calendar date exactly when they are on the same day.
\<close>

lemma utcDate_Day: "(utcDate a = utcDate b) = (Day a = Day b)"
proof
  assume eq: "utcDate a = utcDate b"
  then have y: "YearFromTime a = YearFromTime b" and m: "MonthFromTime a = MonthFromTime b"
    and d: "DateFromTime a = DateFromTime b" by (simp_all add: utcDate_def)
  have "DayWithinYear a = DayWithinYear b" using d unfolding DateFromTime_def y m by simp
  then show "Day a = Day b" unfolding DayWithinYear_def y by simp
next
  assume "Day a = Day b"
  then show "utcDate a = utcDate b"
    by (simp add: utcDate_def YearFromTime_def MonthFromTime_def DateFromTime_def DayWithinYear_def)
qed

lemma DayFromYear_mono_aux: "DayFromYear y + 365 * int n \<le> DayFromYear (y + int n)"
proof (induction n)
  case 0
  then show ?case by simp
next
  case (Suc n)
  have "DayFromYear (y + int (Suc n)) = DayFromYear (y + int n) + DaysInYear (y + int n)"
    using DayFromYear_Suc [of "y + int n"] by (simp add: algebra_simps)
  with Suc DaysInYear_bounds(1) [of "y + int n"] show ?case by simp
qed

lemma DayFromYear_mono: "y \<le> z \<Longrightarrow> DayFromYear y \<le> DayFromYear z"
  using DayFromYear_mono_aux [of y "nat (z - y)"] by simp

lemma year_mono: "Day a \<le> Day b \<Longrightarrow> YearFromTime a \<le> YearFromTime b"
proof (rule ccontr)
  assume le: "Day a \<le> Day b" and "\<not> YearFromTime a \<le> YearFromTime b"
  then have "YearFromTime b + 1 \<le> YearFromTime a" by simp
  from DayFromYear_mono [OF this]
  have "Day b < Day a"
    using YearFromDay_spec(2) [of "Day b"] YearFromDay_spec(1) [of "Day a"]
    by (simp add: YearFromTime_def)
  with le show False by simp
qed

lemma monthOfDay_mono: "d1 \<le> d2 \<Longrightarrow> monthOfDay l d1 \<le> monthOfDay l d2"
  by (simp add: monthOfDay_def)

lemma monthOfDay_less:
  assumes "l = 0 \<or> l = 1" "0 \<le> d1" "0 \<le> d2" "monthOfDay l d1 < monthOfDay l d2"
  shows "d1 < d2"
  using assms monthOfDay_mono [of d2 d1 l] by linarith

lemma dwy_order:
  assumes "l = 0 \<or> l = 1" "0 \<le> d1" "0 \<le> d2"
  shows "(d1 < d2) =
     (monthOfDay l d1 + 1 < monthOfDay l d2 + 1 \<or>
      (monthOfDay l d1 + 1 = monthOfDay l d2 + 1 \<and>
       d1 + 1 - monthStart l (monthOfDay l d1) < d2 + 1 - monthStart l (monthOfDay l d2)))"
proof -
  consider "monthOfDay l d1 < monthOfDay l d2" | "monthOfDay l d1 = monthOfDay l d2"
    | "monthOfDay l d2 < monthOfDay l d1" by linarith
  then show ?thesis
  proof cases
    case 1
    with monthOfDay_less [OF assms] show ?thesis by simp
  next
    case 2
    then show ?thesis by simp
  next
    case 3
    with monthOfDay_less [OF assms(1,3,2)] show ?thesis by simp
  qed
qed

text \<open>The order of calendar dates is the order of the day numbers.\<close>

lemma dateBefore_Day: "dateBefore (utcDate a) (utcDate b) = (Day a < Day b)"
proof (cases "YearFromTime a = YearFromTime b")
  case True
  let ?l = "InLeapYear (YearFromTime b)"
  have "(Day a < Day b) = (DayWithinYear a < DayWithinYear b)"
    by (simp add: DayWithinYear_def True)
  also have "\<dots> = dateBefore (utcDate a) (utcDate b)"
    using dwy_order [OF InLeapYear_cases [of "YearFromTime b"] DayWithinYear_bounds(1) [of a]
        DayWithinYear_bounds(1) [of b]]
    by (simp add: dateBefore_def utcDate_def MonthFromTime_def DateFromTime_def True)
  finally show ?thesis by simp
next
  case False
  show ?thesis
  proof (cases "YearFromTime a < YearFromTime b")
    case True
    then have "\<not> Day b \<le> Day a" using year_mono [of b a] by auto
    with True show ?thesis by (simp add: dateBefore_def utcDate_def)
  next
    case F: False
    with False have "YearFromTime b < YearFromTime a" by simp
    then have "\<not> Day a \<le> Day b" using year_mono [of a b] by auto
    with F False show ?thesis by (auto simp add: dateBefore_def utcDate_def)
  qed
qed

subsection \<open>\<open>Date\<close> objects\<close>

text \<open>
  A \<open>Date\<close> object holds a time value or \<open>NaN\<close> (an invalid date); it is
  modelled as \<open>int option\<close>, \<open>None\<close> being \<open>NaN\<close>.  \<open>TimeClip\<close> is the range
  check every \<open>Date\<close> constructor applies: more than \<open>8.64e15\<close> milliseconds from
  the epoch is not a time value.  Parsing a date string is implementation-defined
  beyond the ISO format, so \<open>Date.parse\<close> is a parameter \<open>parse\<close> of the
  classifiers (\<open>None\<close> is \<open>NaN\<close>).  \<open>toISOString\<close> throws a \<open>RangeError\<close> on an
  invalid date; comparing dates with \<open><\<close> compares their time values, and every
  comparison with \<open>NaN\<close> is false.
\<close>

definition maxTimeValue :: int where "maxTimeValue = 8640000000000000"

definition validTime :: "int \<Rightarrow> bool" where
  "validTime t = (\<bar>t\<bar> \<le> maxTimeValue)"

definition TimeClip :: "int \<Rightarrow> int option" where
  "TimeClip t = (if \<bar>t\<bar> \<le> maxTimeValue then Some t else None)"

definition newDateOfString :: "(string \<Rightarrow> int option) \<Rightarrow> string \<Rightarrow> int option" where
  "newDateOfString parse s = (case parse s of None \<Rightarrow> None | Some t \<Rightarrow> TimeClip t)"

definition newDateOfNumber :: "int option \<Rightarrow> int option" where
  "newDateOfNumber v = (case v of None \<Rightarrow> None | Some t \<Rightarrow> TimeClip t)"

definition getTime :: "int option \<Rightarrow> int option" where
  "getTime d = d"

definition plusNumber :: "int option \<Rightarrow> int \<Rightarrow> int option" where
  "plusNumber v k = (case v of None \<Rightarrow> None | Some t \<Rightarrow> Some (t + k))"

datatype jsException = RangeError

definition toISOString :: "int option \<Rightarrow> jsException + string" where
  "toISOString d =
     (case d of
        None \<Rightarrow> Inl RangeError
      | Some t \<Rightarrow> Inr (isoDatePart t @ ''T'' @ isoTimePart t))"

definition dateLess :: "int option \<Rightarrow> int option \<Rightarrow> bool" where
  "dateLess a b = (case (a, b) of (Some x, Some y) \<Rightarrow> x < y | _ \<Rightarrow> False)"

section \<open>Date Classifier (ticktick-client.ts, isTaskDueToday and isTaskOverdue)\<close>

text \<open>
  \<open>clock\<close> is the time value \<open>new Date()\<close> reads.  The body of each \<open>try\<close> block is
  a function of its own (\<open>isTaskDueToday_try\<close>, \<open>isTaskOverdue_try\<close>) returning the
  exception or the result; the \<open>catch\<close> turns every exception into \<open>false\<close>.  The
  default parameter \<open>timezoneOffsetHours = 8\<close> is an \<open>int option\<close> whose \<open>None\<close>
  takes the default.
\<close>

definition isTaskDueToday_try ::
  "(string \<Rightarrow> int option) \<Rightarrow> int \<Rightarrow> TickTickTask \<Rightarrow> string \<Rightarrow> jsException + bool" where
  "isTaskDueToday_try parse clock task due =
     (let now = TimeClip clock;
          dueDate0 = newDateOfString parse due;
          adjustedDueDate = newDateOfNumber (plusNumber (getTime dueDate0) (24 * 60 * 60 * 1000))
      in if truthyBool (allDay task) then
           (case toISOString now of
              Inl e \<Rightarrow> Inl e
            | Inr nowIso \<Rightarrow>
                (let today = splitT0 nowIso in
                 case toISOString adjustedDueDate of
                   Inl e \<Rightarrow> Inl e
                 | Inr dueIso \<Rightarrow>
                     (let adjustedDueDateStr = splitT0 dueIso
                      in Inr (adjustedDueDateStr = today))))
         else
           (case toISOString now of
              Inl e \<Rightarrow> Inl e
            | Inr nowIso \<Rightarrow>
                (let today = splitT0 nowIso in
                 case toISOString adjustedDueDate of
                   Inl e \<Rightarrow> Inl e
                 | Inr dueIso \<Rightarrow>
                     (let adjustedDueDateStr = splitT0 dueIso
                      in Inr (adjustedDueDateStr = today)))))"

definition isTaskDueToday :: "(string \<Rightarrow> int option) \<Rightarrow> int \<Rightarrow> TickTickTask \<Rightarrow> bool" where
  "isTaskDueToday parse clock task =
     (if truthyStr (completedTime task) then False
      else if \<not> truthyStr (dueDate task) then False
      else (case dueDate task of
              None \<Rightarrow> False
            | Some due \<Rightarrow>
                (case isTaskDueToday_try parse clock task due of
                   Inl error \<Rightarrow> False
                 | Inr result \<Rightarrow> result)))"

definition isTaskOverdue_try ::
  "(string \<Rightarrow> int option) \<Rightarrow> int \<Rightarrow> TickTickTask \<Rightarrow> string \<Rightarrow> jsException + bool" where
  "isTaskOverdue_try parse clock task due =
     (let now = TimeClip clock;
          dueDate0 = newDateOfString parse due;
          adjustedDueDate = newDateOfNumber (plusNumber (getTime dueDate0) (24 * 60 * 60 * 1000))
      in if truthyBool (allDay task) then
           (case toISOString now of
              Inl e \<Rightarrow> Inl e
            | Inr nowIso \<Rightarrow>
                (let today = splitT0 nowIso in
                 case toISOString adjustedDueDate of
                   Inl e \<Rightarrow> Inl e
                 | Inr dueIso \<Rightarrow>
                     (let adjustedDueDateStr = splitT0 dueIso
                      in Inr (jsStrLess adjustedDueDateStr today))))
         else Inr (dateLess adjustedDueDate now))"

definition isTaskOverdue ::
  "(string \<Rightarrow> int option) \<Rightarrow> int \<Rightarrow> TickTickTask \<Rightarrow> int option \<Rightarrow> bool" where
  "isTaskOverdue parse clock task timezoneOffsetHours =
     (let timezoneOffsetHours0 = (case timezoneOffsetHours of None \<Rightarrow> 8 | Some h \<Rightarrow> h)
      in if truthyStr (completedTime task) then False
         else if \<not> truthyStr (dueDate task) then False
         else (case dueDate task of
                 None \<Rightarrow> False
               | Some due \<Rightarrow>
                   (case isTaskOverdue_try parse clock task due of
                      Inl error \<Rightarrow> False
                    | Inr result \<Rightarrow> result)))"

section \<open>Example inputs\<close>

text \<open>
  A task, and \<open>Date.parse\<close> on the ISO strings the examples use:
  \<open>2024-01-10T00:00:00.000Z\<close> is \<open>1704844800000\<close>, the last day of the year 9999 is
  \<open>253402214400000\<close>, and \<open>8.64e15\<close> is \<open>+275760-09-13T00:00:00.000Z\<close>.
\<close>

definition exampleTask :: TickTickTask where
  "exampleTask =
     \<lparr> id' = ''t1'', title = ''Pay rent'', content = None, desc = None, allDay = Some True,
       startDate = None, dueDate = Some ''2024-01-10T00:00:00.000Z'', timeZone = None,
       isFloating = None, reminder = None, reminders = None, exDate = None,
       completedTime = None, completedUserId = None, createdTime = None, creator = None,
       etag = None, modifiedTime = None, projectId = ''p1'', sortOrder = None, status = Some 0,
       tags = None, priority = Some 3, progress = None, assignee = None, isDirty = None,
       local = None, repeatFlag = None, items = None \<rparr>"

definition exampleParse :: "string \<Rightarrow> int option" where
  "exampleParse s =
     (if s = ''2024-01-10T00:00:00.000Z'' then Some 1704844800000
      else if s = ''2024-01-10T06:00:00.000Z'' then Some 1704866400000
      else if s = ''9999-12-31T00:00:00.000Z'' then Some 253402214400000
      else if s = ''+275760-09-12T00:00:00.001Z'' then Some 8639999913600001
      else None)"

section \<open>Properties of the Display Normalizer\<close>

lemma digitChar_digit: "n < 10 \<Longrightarrow> digitChar n \<in> set ''0123456789''"
  by (drule digit_cases) (elim disjE; simp add: digitChar_def)

lemma decimalValue_snoc:
  "decimalValue (ds @ [c]) = 10 * decimalValue ds + (int (of_char c) - 48)"
  by (simp add: decimalValue_def)

lemma decimalDigits_nonempty: "decimalDigits x \<noteq> []"
  by (subst decimalDigits.simps) simp

lemma decimalDigits_value: "0 \<le> x \<Longrightarrow> decimalValue (decimalDigits x) = x"
proof (induction x rule: decimalDigits.induct)
  case (1 x)
  show ?case
  proof (cases "x < 10")
    case True
    then have "nat x < 10" using 1(2) by simp
    from of_char_digitChar [OF this] show ?thesis
      using True 1(2) by (subst decimalDigits.simps) (simp add: decimalValue_def)
  next
    case False
    then have n: "nat (x mod 10) < 10" by simp
    have "decimalValue (decimalDigits (x div 10)) = x div 10"
      using 1(1) [OF False] 1(2) by simp
    then show ?thesis
      using False of_char_digitChar [OF n]
      by (subst decimalDigits.simps) (simp add: decimalValue_snoc)
  qed
qed

lemma decimalDigits_digits: "0 \<le> x \<Longrightarrow> set (decimalDigits x) \<subseteq> set ''0123456789''"
proof (induction x rule: decimalDigits.induct)
  case (1 x)
  show ?case
  proof (cases "x < 10")
    case True
    then have "nat x < 10" using 1(2) by simp
    from digitChar_digit [OF this] show ?thesis
      using True by (subst decimalDigits.simps) simp
  next
    case False
    then have n: "nat (x mod 10) < 10" by simp
    have "set (decimalDigits (x div 10)) \<subseteq> set ''0123456789''"
      using 1(1) [OF False] 1(2) by simp
    then show ?thesis
      using False digitChar_digit [OF n]
      by (subst decimalDigits.simps) simp
  qed
qed

lemma decimalDigits_hd: "0 < x \<Longrightarrow> hd (decimalDigits x) \<noteq> CHR ''0''"
proof (induction x rule: decimalDigits.induct)
  case (1 x)
  show ?case
  proof (cases "x < 10")
    case True
    then have "nat x < 10" using 1(2) by simp
    from digitChar_inj [OF this, of 0] have "digitChar (nat x) \<noteq> digitChar 0"
      using 1(2) by simp
    then show ?thesis
      using True by (subst decimalDigits.simps) (simp add: digitChar_def)
  next
    case False
    have "hd (decimalDigits (x div 10)) \<noteq> CHR ''0''"
      using 1(1) [OF False] False by simp
    then show ?thesis
      using False decimalDigits_nonempty [of "x div 10"]
      by (subst decimalDigits.simps) simp
  qed
qed

lemmas number_eval = numberToString_def positiveToString_def maxSafeInteger_def
  largeToString_def shortestDecimal.simps roundsTo_def ulpExponent_def bitLength.simps
  decimalDigits.simps exponentForm_def digitChar_def isNumber_def Let_def

text \<open>
  Up to \<open>2^53 - 1\<close> in absolute value the text of a number is its sign and the decimal
  digits of its absolute value.
\<close>

lemma numberToString_safe:
  assumes "\<bar>p\<bar> \<le> maxSafeInteger"
  shows "numberToString p = (if p < 0 then ''-'' else []) @ decimalDigits \<bar>p\<bar>"
  using assms by (auto simp add: numberToString_def positiveToString_def maxSafeInteger_def)

text \<open>
  The texts of some numbers: small ones, \<open>2^60\<close> (written with the sixteen digits
  that identify it and three zeros), \<open>10^21\<close> and \<open>2^70\<close> (in exponent notation), and
  \<open>2^53 + 1\<close>, which is not a Number.
\<close>

lemma numberToString_examples:
  "numberToString 7 = ''7''"
  "numberToString (- 2) = ''-2''"
  "numberToString 500 = ''500''"
  "numberToString 9007199254740992 = ''9007199254740992''"
  "numberToString 1152921504606846976 = ''1152921504606847000''"
  "numberToString 1000000000000000000000 = ''1e+21''"
  "numberToString 1180591620717411303424 = ''1.1805916207174113e+21''"
  by (simp_all add: number_eval)

lemma isNumber_examples:
  "isNumber 7" "isNumber 1152921504606846976" "isNumber 1000000000000000000000"
  "\<not> isNumber 9007199254740993"
  by (simp_all add: number_eval)

lemma priorityText_enhanceTaskForDisplay:
  "priorityText (enhanceTaskForDisplay task) =
     (case priority task of
        None \<Rightarrow> ''None''
      | Some p \<Rightarrow>
          if p = 0 then ''None''
          else if p = 1 then ''Low''
          else if p = 3 then ''Medium''
          else if p = 5 then ''High''
          else ''Custom ('' @ numberToString p @ '')'')"
  by (simp add: enhanceTaskForDisplay_def Let_def truthyNum_def
      TickTickTask.defs EnhancedTask.defs split: option.split)

text \<open>
  C9.  The Display Normalizer returns, for every task (the priority, if present, an
  integer-valued Number), the task's own fields (the truncation of the result to the
  task's fields is the task, so \<open>dueDate\<close> and every other field are unchanged)
  together with a \<open>priorityText\<close>: \<open>None\<close> for an absent priority and for \<open>0\<close>, \<open>Low\<close>
  for \<open>1\<close>, \<open>Medium\<close> for \<open>3\<close>, \<open>High\<close> for \<open>5\<close>, and \<open>Custom (n)\<close> for every other
  integer, \<open>n\<close> being the text the template literal gives for it.  Up to \<open>2^53 - 1\<close> in
  absolute value that text is the decimal numeral of the priority: a minus sign if it
  is negative, then digits without a leading zero whose value is the absolute value.
  Examples: \<open>Custom (7)\<close> for 7, \<open>Custom (-2)\<close> for -2, \<open>Custom (1152921504606847000)\<close>
  for \<open>2^60\<close> and \<open>Custom (1e+21)\<close> for \<open>10^21\<close>.
\<close>

theorem enhanceTaskForDisplay_total:
  assumes "case priority task of None \<Rightarrow> True | Some p \<Rightarrow> isNumber p"
  shows "TickTickTask.truncate (enhanceTaskForDisplay task) = task
   \<and> dueDate (enhanceTaskForDisplay task) = dueDate task
   \<and> priorityText (enhanceTaskForDisplay task) =
       (case priority task of
          None \<Rightarrow> ''None''
        | Some p \<Rightarrow>
            if p = 0 then ''None''
            else if p = 1 then ''Low''
            else if p = 3 then ''Medium''
            else if p = 5 then ''High''
            else ''Custom ('' @ numberToString p @ '')'')
   \<and> (\<forall>p. priority task = Some p \<and> p \<notin> {0, 1, 3, 5} \<and> \<bar>p\<bar> \<le> maxSafeInteger \<longrightarrow>
        (\<exists>ds. priorityText (enhanceTaskForDisplay task) =
                ''Custom ('' @ (if p < 0 then ''-'' else []) @ ds @ '')''
              \<and> ds \<noteq> [] \<and> set ds \<subseteq> set ''0123456789'' \<and> hd ds \<noteq> CHR ''0''
              \<and> decimalValue ds = \<bar>p\<bar>))
   \<and> priorityText (enhanceTaskForDisplay (task\<lparr>priority := Some 7\<rparr>)) = ''Custom (7)''
   \<and> priorityText (enhanceTaskForDisplay (task\<lparr>priority := Some (- 2)\<rparr>)) = ''Custom (-2)''
   \<and> priorityText (enhanceTaskForDisplay (task\<lparr>priority := Some 1152921504606846976\<rparr>)) =
       ''Custom (1152921504606847000)''
   \<and> priorityText (enhanceTaskForDisplay (task\<lparr>priority := Some 1000000000000000000000\<rparr>)) =
       ''Custom (1e+21)''"
proof -
  have a: "TickTickTask.truncate (enhanceTaskForDisplay task) = task
      \<and> dueDate (enhanceTaskForDisplay task) = dueDate task"
    by (simp add: enhanceTaskForDisplay_def Let_def TickTickTask.defs EnhancedTask.defs)
  have b: "\<exists>ds. priorityText (enhanceTaskForDisplay task) =
                ''Custom ('' @ (if p < 0 then ''-'' else []) @ ds @ '')''
              \<and> ds \<noteq> [] \<and> set ds \<subseteq> set ''0123456789'' \<and> hd ds \<noteq> CHR ''0''
              \<and> decimalValue ds = \<bar>p\<bar>"
    if p: "priority task = Some p" "p \<notin> {0, 1, 3, 5}" "\<bar>p\<bar> \<le> maxSafeInteger" for p
  proof -
    have pos: "0 < \<bar>p\<bar>" using p(2) by simp
    have "priorityText (enhanceTaskForDisplay task) =
        ''Custom ('' @ (if p < 0 then ''-'' else []) @ decimalDigits \<bar>p\<bar> @ '')''"
      using p(1,2) numberToString_safe [OF p(3)]
      by (simp add: priorityText_enhanceTaskForDisplay)
    moreover have "decimalDigits \<bar>p\<bar> \<noteq> []" by (rule decimalDigits_nonempty)
    moreover have "set (decimalDigits \<bar>p\<bar>) \<subseteq> set ''0123456789''"
      by (rule decimalDigits_digits) simp
    moreover have "hd (decimalDigits \<bar>p\<bar>) \<noteq> CHR ''0''"
      by (rule decimalDigits_hd [OF pos])
    moreover have "decimalValue (decimalDigits \<bar>p\<bar>) = \<bar>p\<bar>"
      by (rule decimalDigits_value) simp
    ultimately show ?thesis by blast
  qed
  have c: "priorityText (enhanceTaskForDisplay (task\<lparr>priority := Some 7\<rparr>)) = ''Custom (7)''"
    "priorityText (enhanceTaskForDisplay (task\<lparr>priority := Some (- 2)\<rparr>)) = ''Custom (-2)''"
    "priorityText (enhanceTaskForDisplay (task\<lparr>priority := Some 1152921504606846976\<rparr>)) =
       ''Custom (1152921504606847000)''"
    "priorityText (enhanceTaskForDisplay (task\<lparr>priority := Some 1000000000000000000000\<rparr>)) =
       ''Custom (1e+21)''"
    by (simp_all add: priorityText_enhanceTaskForDisplay numberToString_examples)
  show ?thesis
    using a b c by (simp add: priorityText_enhanceTaskForDisplay)
qed

text \<open>
  The example task with priority \<open>7\<close> and with its own priority \<open>3\<close>.
\<close>

theorem enhanceTaskForDisplay_total_witness:
  "isNumber 7 \<and> isNumber 3
   \<and> TickTickTask.truncate (enhanceTaskForDisplay (exampleTask\<lparr>priority := Some 7\<rparr>)) =
       exampleTask\<lparr>priority := Some 7\<rparr>
   \<and> priorityText (enhanceTaskForDisplay (exampleTask\<lparr>priority := Some 7\<rparr>)) = ''Custom (7)''
   \<and> dueDate (enhanceTaskForDisplay exampleTask) = Some ''2024-01-10T00:00:00.000Z''
   \<and> priorityText (enhanceTaskForDisplay exampleTask) = ''Medium''"
  using enhanceTaskForDisplay_total [of "exampleTask\<lparr>priority := Some 7\<rparr>"]
    enhanceTaskForDisplay_total [of exampleTask]
  by (simp add: exampleTask_def number_eval)

section \<open>Properties of the Date Classifier\<close>

lemma validTime_Day:
  assumes "validTime t"
  shows "- 100000000 \<le> Day t" "Day t \<le> 100000000"
proof -
  define q where "q = t div 86400000"
  have p: "(0::int) < 86400000" by simp
  have "86400000 * q \<le> t" "t < 86400000 * q + 86400000"
    unfolding q_def using div_lower [OF p] div_upper [OF p] by blast+
  moreover have "- 8640000000000000 \<le> t" "t \<le> 8640000000000000"
    using assms by (simp_all add: validTime_def maxTimeValue_def)
  ultimately have "- 100000000 \<le> q" "q \<le> 100000000" by linarith+
  then show "- 100000000 \<le> Day t" "Day t \<le> 100000000"
    by (simp_all add: Day_def msPerDay_def q_def)
qed

lemma isoDate_eq:
  assumes "validTime a" "validTime b"
  shows "(isoDatePart a = isoDatePart b) = (utcDate a = utcDate b)"
proof -
  have ya: "\<bar>YearFromTime a\<bar> \<le> 999999" and yb: "\<bar>YearFromTime b\<bar> \<le> 999999"
    using YearFromDay_bounds [OF validTime_Day [OF assms(1)]]
      YearFromDay_bounds [OF validTime_Day [OF assms(2)]]
    by (simp_all add: YearFromTime_def abs_le_iff)
  have m: "nat (MonthFromTime a + 1) < 100" "nat (MonthFromTime b + 1) < 100"
    using MonthFromTime_bounds [of a] MonthFromTime_bounds [of b] by linarith+
  have d: "nat (DateFromTime a) < 100" "nat (DateFromTime b) < 100"
    using DateFromTime_bounds [of a] DateFromTime_bounds [of b] by linarith+
  have n: "(nat (MonthFromTime a + 1) = nat (MonthFromTime b + 1)) = (MonthFromTime a = MonthFromTime b)"
    "(nat (DateFromTime a) = nat (DateFromTime b)) = (DateFromTime a = DateFromTime b)"
    using MonthFromTime_bounds [of a] MonthFromTime_bounds [of b]
      DateFromTime_bounds [of a] DateFromTime_bounds [of b] by linarith+
  show ?thesis
    unfolding isoDatePart_def utcDate_def dateString_inj [OF ya yb m d] using n by simp
qed

lemma isoDate_less:
  assumes "0 \<le> YearFromTime a" "YearFromTime a \<le> 9999"
    and "0 \<le> YearFromTime b" "YearFromTime b \<le> 9999"
  shows "jsStrLess (isoDatePart a) (isoDatePart b) = dateBefore (utcDate a) (utcDate b)"
proof -
  have m: "nat (MonthFromTime a + 1) < 100" "nat (MonthFromTime b + 1) < 100"
    using MonthFromTime_bounds [of a] MonthFromTime_bounds [of b] by linarith+
  have d: "nat (DateFromTime a) < 100" "nat (DateFromTime b) < 100"
    using DateFromTime_bounds [of a] DateFromTime_bounds [of b] by linarith+
  have n: "(nat (MonthFromTime a + 1) = nat (MonthFromTime b + 1)) = (MonthFromTime a = MonthFromTime b)"
    "(nat (DateFromTime a) < nat (DateFromTime b)) = (DateFromTime a < DateFromTime b)"
    "(nat (MonthFromTime a + 1) < nat (MonthFromTime b + 1)) = (MonthFromTime a < MonthFromTime b)"
    using MonthFromTime_bounds [of a] MonthFromTime_bounds [of b]
      DateFromTime_bounds [of a] DateFromTime_bounds [of b] by linarith+
  show ?thesis
    unfolding isoDatePart_def utcDate_def dateBefore_def dateString_less [OF assms m d] n
    by auto
qed

lemmas date_eval = isoDatePart_def isoTimePart_def yearString_def YearFromTime_def YearFromDay_def
  MonthFromTime_def DateFromTime_def DayWithinYear_def Day_def msPerDay_def DayFromYear_def
  DaysInYear_def InLeapYear_def monthOfDay_def monthStart_def HourFromTime_def MinFromTime_def
  SecFromTime_def msFromTime_def splitT0_def digitChar_def utcDate_def dateBefore_def
  yearDown.simps yearUp.simps fixedDigits.simps

lemmas classifier_eval = isTaskDueToday_def isTaskDueToday_try_def isTaskOverdue_def
  isTaskOverdue_try_def truthyStr_def truthyBool_def TimeClip_def maxTimeValue_def validTime_def
  newDateOfString_def newDateOfNumber_def getTime_def plusNumber_def toISOString_def dateLess_def
  Let_def

lemma adjustedDueDate_eq:
  assumes "parse s = Some due" "validTime due"
  shows "newDateOfNumber (plusNumber (getTime (newDateOfString parse s)) 86400000)
         = (if validTime (due + msPerDay) then Some (due + msPerDay) else None)"
  using assms
  by (auto simp: newDateOfNumber_def plusNumber_def getTime_def newDateOfString_def TimeClip_def
      validTime_def msPerDay_def maxTimeValue_def)

lemma isTaskDueToday_try_eq:
  assumes "parse s = Some due" "validTime due" "validTime now"
  shows "isTaskDueToday_try parse now task s =
         (if validTime (due + msPerDay)
          then Inr (isoDatePart (due + msPerDay) = isoDatePart now)
          else Inl RangeError)"
proof -
  have n: "TimeClip now = Some now" using assms(3) by (simp add: TimeClip_def validTime_def)
  have s: "\<And>t. splitT0 (isoDatePart t @ CHR ''T'' # isoTimePart t) = isoDatePart t"
    using splitT0_iso by simp
  show ?thesis
    unfolding isTaskDueToday_try_def n
    by (simp add: toISOString_def Let_def s adjustedDueDate_eq [of parse s due, OF assms(1,2)])
qed

lemma isTaskOverdue_try_eq:
  assumes "parse s = Some due" "validTime due" "validTime now"
  shows "isTaskOverdue_try parse now task s =
         (if truthyBool (allDay task)
          then (if validTime (due + msPerDay)
                then Inr (jsStrLess (isoDatePart (due + msPerDay)) (isoDatePart now))
                else Inl RangeError)
          else Inr (validTime (due + msPerDay) \<and> due + msPerDay < now))"
proof -
  have n: "TimeClip now = Some now" using assms(3) by (simp add: TimeClip_def validTime_def)
  have s: "\<And>t. splitT0 (isoDatePart t @ CHR ''T'' # isoTimePart t) = isoDatePart t"
    using splitT0_iso by simp
  show ?thesis
    unfolding isTaskOverdue_try_def n
    by (simp add: toISOString_def Let_def s dateLess_def
        adjustedDueDate_eq [of parse s due, OF assms(1,2)])
qed

text \<open>
  For every uncompleted task whose due date parses to a time value \<open>due\<close>,
  \<open>isTaskDueToday\<close> shifts the due date by 24 hours, whatever \<open>allDay\<close> is, and returns
  true if and only if the shifted instant \<open>due + 24h\<close> is still a time value (at most
  \<open>8.64e15\<close> ms from the epoch) and its UTC calendar date is the UTC calendar date of
  the reference instant.  (By \<open>utcDate_Day\<close>, two instants have the same UTC calendar
  date exactly when they have the same day number \<open>Day\<close>.)
\<close>

lemma isTaskDueToday_representable:
  assumes "\<not> truthyStr (completedTime task)"
    and "dueDate task = Some s" "s \<noteq> []"
    and "parse s = Some due" "validTime due" "validTime now"
  shows "isTaskDueToday parse now task =
           (validTime (due + msPerDay) \<and> utcDate (due + msPerDay) = utcDate now)"
proof -
  have t: "truthyStr (dueDate task)" using assms(2,3) by (simp add: truthyStr_def)
  show ?thesis
    using assms(1,2) t
    by (simp add: isTaskDueToday_def isTaskDueToday_try_eq [of parse s due now, OF assms(4,5,6)]
        isoDate_eq [OF _ assms(6)])
qed

text \<open>
  A shifted instant on the calendar day of a reference instant before \<open>8.64e15\<close> is a
  time value: the last day of the range of \<open>Date\<close> has the single instant \<open>8.64e15\<close>.
\<close>

lemma shifted_on_clock_day_valid:
  assumes "validTime due" "validTime now" "now \<noteq> maxTimeValue"
    and "utcDate (due + msPerDay) = utcDate now"
  shows "validTime (due + msPerDay)"
proof (rule ccontr)
  assume n: "\<not> validTime (due + msPerDay)"
  define q where "q = (due + 86400000) div 86400000"
  define r where "r = now div 86400000"
  have p: "(0::int) < 86400000" by simp
  have "Day (due + msPerDay) = Day now" using assms(4) by (simp only: utcDate_Day)
  then have e: "q = r" by (simp add: q_def r_def Day_def msPerDay_def)
  have "8640000000000000 \<le> due + 86400000"
    using n assms(1) by (simp add: validTime_def maxTimeValue_def msPerDay_def)
  then have "8640000000000000 div 86400000 \<le> q"
    unfolding q_def by (rule zdiv_mono1) simp
  then have "100000000 \<le> q" by simp
  moreover have "86400000 * r \<le> now" unfolding r_def by (rule div_lower [OF p])
  moreover have "now < 8640000000000000"
    using assms(2,3) by (simp add: validTime_def maxTimeValue_def)
  ultimately show False using e by linarith
qed

text \<open>
  C1.  For every uncompleted task whose due date parses to a time value \<open>due\<close>, read
  at a reference instant of the clock (a time value before \<open>8.64e15\<close>, the last instant
  of the range of \<open>Date\<close>, in the year 275760), \<open>isTaskDueToday\<close> returns true if and
  only if the UTC calendar date of \<open>due + 24h\<close> is the UTC calendar date of the
  reference instant.  The due date is shifted by 24 hours whatever \<open>allDay\<close> is: the
  result is the same for every value of \<open>allDay\<close>.
\<close>

theorem isTaskDueToday_calendar:
  assumes "\<not> truthyStr (completedTime task)"
    and "dueDate task = Some s" "s \<noteq> []"
    and "parse s = Some due" "validTime due" "validTime now" "now \<noteq> maxTimeValue"
  shows "isTaskDueToday parse now task = (utcDate (due + msPerDay) = utcDate now)
         \<and> isTaskDueToday parse now (task\<lparr>allDay := a\<rparr>) = isTaskDueToday parse now task"
proof -
  have "\<And>u. completedTime u = completedTime task \<Longrightarrow> dueDate u = dueDate task \<Longrightarrow>
      isTaskDueToday parse now u = (utcDate (due + msPerDay) = utcDate now)"
    using isTaskDueToday_representable [of _ s parse due now, OF _ _ assms(3,4,5,6)]
      shifted_on_clock_day_valid [OF assms(5,6,7)] assms(1,2)
    by auto
  then show ?thesis by simp
qed

text \<open>
  The example of the specification: due \<open>2024-01-10T00:00:00Z\<close>, all-day, reference
  instant \<open>2024-01-11T12:00:00Z\<close>.
\<close>

theorem isTaskDueToday_calendar_witness:
  "isTaskDueToday exampleParse 1704974400000 exampleTask
   \<and> utcDate (1704844800000 + msPerDay) = (2024, 1, 11)
   \<and> utcDate 1704974400000 = (2024, 1, 11)"
  using isTaskDueToday_calendar [of exampleTask "''2024-01-10T00:00:00.000Z''" exampleParse
      1704844800000 1704974400000 None]
  by (simp add: exampleTask_def exampleParse_def truthyStr_def validTime_def maxTimeValue_def
      date_eval)

text \<open>
  At the reference instant \<open>8.64e15\<close> itself, which no clock reads, the shifted instant
  of a task due at \<open>+275760-09-12T00:00:00.001Z\<close> is on the calendar day of the
  reference instant, but \<open>new Date\<close> of it is an invalid date, \<open>toISOString\<close> throws,
  and the \<open>catch\<close> returns false.
\<close>

lemma isTaskDueToday_last_instant:
  "\<not> truthyStr (completedTime (exampleTask\<lparr>dueDate := Some ''+275760-09-12T00:00:00.001Z''\<rparr>))
   \<and> exampleParse ''+275760-09-12T00:00:00.001Z'' = Some 8639999913600001
   \<and> validTime 8639999913600001 \<and> validTime 8640000000000000
   \<and> utcDate (8639999913600001 + msPerDay) = utcDate 8640000000000000
   \<and> \<not> isTaskDueToday exampleParse 8640000000000000
         (exampleTask\<lparr>dueDate := Some ''+275760-09-12T00:00:00.001Z''\<rparr>)"
proof -
  have "Day (8639999913600001 + msPerDay) = Day 8640000000000000"
    by (simp add: Day_def msPerDay_def)
  then have "utcDate (8639999913600001 + msPerDay) = utcDate 8640000000000000"
    by (simp only: utcDate_Day)
  moreover have "\<not> isTaskDueToday exampleParse 8640000000000000
         (exampleTask\<lparr>dueDate := Some ''+275760-09-12T00:00:00.001Z''\<rparr>)"
    by (simp add: exampleTask_def exampleParse_def isTaskDueToday_def truthyStr_def
        isTaskDueToday_try_eq [of exampleParse _ 8639999913600001] validTime_def
        maxTimeValue_def msPerDay_def)
  ultimately show ?thesis
    by (simp add: exampleTask_def exampleParse_def truthyStr_def validTime_def maxTimeValue_def)
qed

lemma year_le_valid:
  assumes "validTime due" "YearFromTime (due + msPerDay) \<le> 9999"
  shows "validTime (due + msPerDay)"
proof -
  let ?t = "due + msPerDay"
  have "Day ?t < DayFromYear (YearFromTime ?t + 1)"
    using YearFromDay_spec(2) [of "Day ?t"] by (simp add: YearFromTime_def)
  also have "\<dots> \<le> DayFromYear 10000" using assms(2) by (intro DayFromYear_mono) simp
  also have "\<dots> = 2932897" by (simp add: DayFromYear_def)
  finally have d: "?t div 86400000 < 2932897" by (simp add: Day_def msPerDay_def)
  have p: "(0::int) < 86400000" by simp
  define q where "q = ?t div 86400000"
  have "?t < 86400000 * q + 86400000" unfolding q_def using div_upper [OF p] by blast
  moreover have "q \<le> 2932896" using d by (simp add: q_def)
  ultimately have "?t < 8640000000000000" by linarith
  moreover have "- 8640000000000000 \<le> ?t"
    using assms(1) by (simp add: validTime_def maxTimeValue_def msPerDay_def)
  ultimately show ?thesis by (simp add: validTime_def maxTimeValue_def)
qed

text \<open>
  The overdue classifier while every year involved has four digits (\<open>0..9999\<close>): an
  all-day task is overdue exactly when the UTC calendar date of \<open>due + 24h\<close> is before
  the UTC calendar date of the reference instant, a timed task exactly when the
  instant \<open>due + 24h\<close> is before the reference instant.
\<close>

lemma isTaskOverdue_calendar:
  assumes "\<not> truthyStr (completedTime task)"
    and "dueDate task = Some s" "s \<noteq> []"
    and "parse s = Some due" "validTime due" "validTime now"
    and "0 \<le> YearFromTime now" "YearFromTime now \<le> 9999"
    and "0 \<le> YearFromTime (due + msPerDay)" "YearFromTime (due + msPerDay) \<le> 9999"
  shows "isTaskOverdue parse now task tz =
           (if truthyBool (allDay task)
            then dateBefore (utcDate (due + msPerDay)) (utcDate now)
            else due + msPerDay < now)"
proof -
  have t: "truthyStr (dueDate task)" using assms(2,3) by (simp add: truthyStr_def)
  have v: "validTime (due + msPerDay)" by (rule year_le_valid [OF assms(5,10)])
  show ?thesis
    using assms(1,2) t v
    by (simp add: isTaskOverdue_def isTaskOverdue_try_eq [of parse s due now, OF assms(4,5,6)]
        isoDate_less [OF assms(9,10,7,8)])
qed

text \<open>
  The example of the specification: the same task at \<open>2024-01-12T00:00:00Z\<close> is
  overdue.
\<close>

lemma isTaskOverdue_calendar_example:
  "isTaskOverdue exampleParse 1705017600000 exampleTask None
   \<and> utcDate (1704844800000 + msPerDay) = (2024, 1, 11)
   \<and> utcDate 1705017600000 = (2024, 1, 12)"
  using isTaskOverdue_calendar [of exampleTask "''2024-01-10T00:00:00.000Z''" exampleParse
      1704844800000 1705017600000 None]
  by (simp add: exampleTask_def exampleParse_def truthyStr_def truthyBool_def validTime_def
      maxTimeValue_def date_eval)

text \<open>
  C2.  The claim: an all-day task is overdue if and only if the UTC calendar date of
  \<open>due + 24h\<close> is strictly before the UTC calendar date of the reference instant.  The
  code compares the two \<open>YYYY-MM-DD\<close> texts with \<open><\<close> on strings, which is the order of
  the dates only while both years have four digits.  An all-day task due on
  \<open>9999-12-31\<close> has the shifted date \<open>10000-01-01\<close>, written \<open>+010000-01-01\<close>, and
  \<open>+\<close> sorts before every digit: on \<open>2024-01-12\<close> the task is classified overdue,
  although its date is not before the reference date.
\<close>

theorem isTaskOverdue_year_10000:
  "isTaskOverdue exampleParse 1705017600000
     (exampleTask\<lparr>dueDate := Some ''9999-12-31T00:00:00.000Z''\<rparr>) None
   \<and> truthyBool (allDay (exampleTask\<lparr>dueDate := Some ''9999-12-31T00:00:00.000Z''\<rparr>))
   \<and> exampleParse ''9999-12-31T00:00:00.000Z'' = Some 253402214400000
   \<and> isoDatePart (253402214400000 + msPerDay) = ''+010000-01-01''
   \<and> isoDatePart 1705017600000 = ''2024-01-12''
   \<and> utcDate (253402214400000 + msPerDay) = (10000, 1, 1)
   \<and> utcDate 1705017600000 = (2024, 1, 12)
   \<and> \<not> dateBefore (utcDate (253402214400000 + msPerDay)) (utcDate 1705017600000)"
  by (simp add: exampleTask_def exampleParse_def classifier_eval date_eval)

text \<open>
  C3 (as amended).  For every task whose \<open>completedTime\<close> is a non-empty string, and
  for every task whose \<open>dueDate\<close> is absent or empty, \<open>isTaskDueToday\<close> and
  \<open>isTaskOverdue\<close> return false, for every parser, reference instant and timezone
  offset, whatever the other fields are.
\<close>

theorem classifiers_false_when_completed_or_undated:
  assumes "truthyStr (completedTime task) \<or> \<not> truthyStr (dueDate task)"
  shows "\<not> isTaskDueToday parse now task \<and> \<not> isTaskOverdue parse now task tz"
  using assms by (auto simp: isTaskDueToday_def isTaskOverdue_def)

theorem classifiers_false_when_completed_or_undated_witness:
  "truthyStr (completedTime (exampleTask\<lparr>completedTime := Some ''2024-01-09T10:00:00.000Z''\<rparr>))
   \<and> \<not> isTaskDueToday exampleParse 1704974400000
         (exampleTask\<lparr>completedTime := Some ''2024-01-09T10:00:00.000Z''\<rparr>)
   \<and> \<not> isTaskOverdue exampleParse 1705017600000
         (exampleTask\<lparr>completedTime := Some ''2024-01-09T10:00:00.000Z''\<rparr>) None
   \<and> \<not> truthyStr (dueDate (exampleTask\<lparr>dueDate := None\<rparr>))
   \<and> \<not> isTaskDueToday exampleParse 1704974400000 (exampleTask\<lparr>dueDate := None\<rparr>)
   \<and> \<not> isTaskOverdue exampleParse 1705017600000 (exampleTask\<lparr>dueDate := None\<rparr>) None"
  using classifiers_false_when_completed_or_undated
      [of "exampleTask\<lparr>completedTime := Some ''2024-01-09T10:00:00.000Z''\<rparr>"
        exampleParse 1704974400000 None]
    classifiers_false_when_completed_or_undated
      [of "exampleTask\<lparr>completedTime := Some ''2024-01-09T10:00:00.000Z''\<rparr>"
        exampleParse 1705017600000 None]
    classifiers_false_when_completed_or_undated
      [of "exampleTask\<lparr>dueDate := None\<rparr>" exampleParse 1704974400000 None]
    classifiers_false_when_completed_or_undated
      [of "exampleTask\<lparr>dueDate := None\<rparr>" exampleParse 1705017600000 None]
  by (simp add: exampleTask_def truthyStr_def)

text \<open>
  C3 as stated fails for a \<open>completedTime\<close> that is not null but empty: the guard
  \<open>if (task.completedTime)\<close> tests truthiness, the empty string is falsy, and the task
  is classified by its due date.
\<close>

theorem empty_completedTime_is_classified:
  "completedTime (exampleTask\<lparr>completedTime := Some ''''\<rparr>) \<noteq> None
   \<and> isTaskDueToday exampleParse 1704974400000 (exampleTask\<lparr>completedTime := Some ''''\<rparr>)
   \<and> isTaskOverdue exampleParse 1705017600000 (exampleTask\<lparr>completedTime := Some ''''\<rparr>) None"
  by (simp add: exampleTask_def exampleParse_def classifier_eval date_eval)

text \<open>
  C10.  The two classifiers are not mutually exclusive: an uncompleted task that is not
  all-day, whose shifted due instant \<open>due + 24h\<close> is on the UTC calendar day of the
  reference instant and earlier than it, is both due today and overdue.  Such a task
  and instant exist: due \<open>2024-01-10T06:00:00Z\<close>, read at \<open>2024-01-11T12:00:00Z\<close>.
\<close>

theorem dueToday_and_overdue_overlap:
  assumes "\<not> truthyStr (completedTime task)" "\<not> truthyBool (allDay task)"
    and "dueDate task = Some s" "s \<noteq> []"
    and "parse s = Some due" "validTime due" "validTime now"
    and "validTime (due + msPerDay)"
    and "utcDate (due + msPerDay) = utcDate now" "due + msPerDay < now"
  shows "isTaskDueToday parse now task \<and> isTaskOverdue parse now task tz"
proof -
  have t: "truthyStr (dueDate task)" using assms(3,4) by (simp add: truthyStr_def)
  have "isTaskDueToday parse now task"
    using assms(1,3,8,9) t
    by (simp add: isTaskDueToday_def isTaskDueToday_try_eq [of parse s due now, OF assms(5,6,7)]
        isoDate_eq [OF assms(8,7)])
  moreover have "isTaskOverdue parse now task tz"
    using assms(1,2,3,8,10) t
    by (simp add: isTaskOverdue_def isTaskOverdue_try_eq [of parse s due now, OF assms(5,6,7)])
  ultimately show ?thesis by simp
qed

theorem dueToday_and_overdue_overlap_witness:
  "\<not> truthyStr (completedTime
        (exampleTask\<lparr>allDay := Some False, dueDate := Some ''2024-01-10T06:00:00.000Z''\<rparr>))
   \<and> \<not> truthyBool (allDay
        (exampleTask\<lparr>allDay := Some False, dueDate := Some ''2024-01-10T06:00:00.000Z''\<rparr>))
   \<and> isTaskDueToday exampleParse 1704974400000
        (exampleTask\<lparr>allDay := Some False, dueDate := Some ''2024-01-10T06:00:00.000Z''\<rparr>)
   \<and> isTaskOverdue exampleParse 1704974400000
        (exampleTask\<lparr>allDay := Some False, dueDate := Some ''2024-01-10T06:00:00.000Z''\<rparr>)
        None"
  using dueToday_and_overdue_overlap
      [of "exampleTask\<lparr>allDay := Some False, dueDate := Some ''2024-01-10T06:00:00.000Z''\<rparr>"
        "''2024-01-10T06:00:00.000Z''" exampleParse 1704866400000 1704974400000 None]
  by (simp add: exampleTask_def exampleParse_def truthyStr_def truthyBool_def validTime_def
      maxTimeValue_def date_eval)

section \<open>The remote service and the client's state (ticktick-client.ts, TickTickClient)\<close>

text \<open>
  The remote service answers each request with a response or with a failure.  A
  failure is an axios error: it has a \<open>message\<close>, and a \<open>response\<close> (status, status
  text, body) when the server answered; \<open>resp_data\<close> is the JSON text of the body,
  \<open>None\<close> when the body is falsy.  \<open>Thrown\<close> is what a \<open>catch\<close> of the client can
  receive: an axios error, or an \<open>Error\<close> the client itself created.

  \<open>Remote\<close> holds one function per endpoint; its first argument is the
  \<open>Authorization\<close> header the client sends, its result the axios error, or
  \<open>response.data\<close> in the shape the code's type annotations declare (\<open>None\<close> is an
  absent body).  The remote answers a request the same way throughout one operation.

  \<open>Client\<close> is the object's state: \<open>sessionId\<close>, the default \<open>Authorization\<close>
  header of the axios instance and the configuration; \<open>requests\<close> records every
  request sent, \<open>warnings\<close> every \<open>console.warn\<close>.  An operation returns the thrown
  error's message (\<open>Inl\<close>) or its result (\<open>Inr\<close>), and the client's new state.
\<close>

record ErrorResponse =
  resp_status :: int
  resp_statusText :: string
  resp_data :: "string option"

record AxiosError =
  message :: string
  response :: "ErrorResponse option"

datatype Thrown = Failure AxiosError | Error string

record PartialTask =
  arg_taskId :: "string option"
  arg_title :: "string option"
  arg_content :: "string option"
  arg_projectId :: "string option"
  arg_dueDate :: "string option"
  arg_priority :: "int option"
  arg_tags :: "string list option"

datatype Request =
    PostSignon "string option" "string option"
  | GetProjectList
  | GetProjectData string
  | GetTaskQuery string
  | PostTask PartialTask
  | PostTaskUpdate string PartialTask
  | DeleteTask string string
  | PostTaskComplete string string
  | GetTask string string

record SignonData =
  token :: "string option"

record ProjectData =
  tasks :: "TickTickTask list option"

record Remote =
  signon :: "string option \<Rightarrow> string option \<Rightarrow> string option \<Rightarrow> AxiosError + SignonData option"
  projectList :: "string option \<Rightarrow> AxiosError + TickTickProject list option"
  projectData :: "string option \<Rightarrow> string \<Rightarrow> AxiosError + ProjectData option"
  taskQuery :: "string option \<Rightarrow> string \<Rightarrow> AxiosError + TickTickTask list option"
  postTask :: "string option \<Rightarrow> PartialTask \<Rightarrow> AxiosError + TickTickTask"
  postTaskUpdate :: "string option \<Rightarrow> string \<Rightarrow> PartialTask \<Rightarrow> AxiosError + TickTickTask"
  deleteTaskAt :: "string option \<Rightarrow> string \<Rightarrow> string \<Rightarrow> AxiosError + unit"
  postTaskComplete :: "string option \<Rightarrow> string \<Rightarrow> string \<Rightarrow> AxiosError + TickTickTask"
  getTaskAt :: "string option \<Rightarrow> string \<Rightarrow> string \<Rightarrow> AxiosError + TickTickTask"

record Warning =
  warning_text :: string
  warning_cause :: AxiosError

record Client =
  sessionId :: "string option"
  authorization :: "string option"
  config :: TickTickConfig
  requests :: "Request list"
  warnings :: "Warning list"

text \<open>The constructor adopts a configured access token at once.\<close>

definition newClient :: "TickTickConfig \<Rightarrow> Client" where
  "newClient cfg =
     (case accessToken cfg of
        Some tok \<Rightarrow>
          if truthyStr (accessToken cfg)
          then \<lparr> sessionId = Some tok, authorization = Some (''Bearer '' @ tok), config = cfg,
                 requests = [], warnings = [] \<rparr>
          else \<lparr> sessionId = None, authorization = None, config = cfg,
                 requests = [], warnings = [] \<rparr>
      | None \<Rightarrow>
          \<lparr> sessionId = None, authorization = None, config = cfg,
            requests = [], warnings = [] \<rparr>)"

definition sent :: "Request \<Rightarrow> Client \<Rightarrow> Client" where
  "sent r c = c\<lparr>requests := requests c @ [r]\<rparr>"

definition warn :: "string \<Rightarrow> AxiosError \<Rightarrow> Client \<Rightarrow> Client" where
  "warn txt e c = c\<lparr>warnings := warnings c @ [\<lparr>warning_text = txt, warning_cause = e\<rparr>]\<rparr>"

text \<open>
  The two ways the code turns what it caught into the message of the \<open>Error\<close> it
  throws: \<open>errorDetail\<close> is the \<open>catch\<close> of \<open>authenticate\<close>, \<open>getTasks\<close> and
  \<open>getTasksRaw\<close> (status, status text and body when the error has a response);
  \<open>errorMessage\<close> is the \<open>catch\<close> of the other operations (the message only).
\<close>

definition errorDetail :: "string \<Rightarrow> Thrown \<Rightarrow> string" where
  "errorDetail what error =
     (case error of
        Failure axiosError \<Rightarrow>
          (case response axiosError of
             Some r \<Rightarrow>
               (let errorData = (case resp_data r of Some json \<Rightarrow> json | None \<Rightarrow> message axiosError)
                in what @ '': '' @ numberToString (resp_status r) @ '' '' @ resp_statusText r
                     @ '' - '' @ errorData)
           | None \<Rightarrow> what @ '': '' @ message axiosError)
      | Error msg \<Rightarrow> what @ '': '' @ msg)"

definition errorMessage :: "string \<Rightarrow> AxiosError \<Rightarrow> string" where
  "errorMessage what error = what @ '': '' @ message error"

section \<open>Session Manager (authenticate, ensureAuthenticated)\<close>

definition authenticate :: "Remote \<Rightarrow> Client \<Rightarrow> (string + unit) \<times> Client" where
  "authenticate remote c =
     (let c1 = sent (PostSignon (username (config c)) (password (config c))) c
      in case signon remote (authorization c) (username (config c)) (password (config c)) of
           Inr data \<Rightarrow>
             (case data of
                Some d \<Rightarrow>
                  (case token d of
                     Some tok \<Rightarrow>
                       if truthyStr (token d)
                       then (Inr (), c1\<lparr>sessionId := Some tok,
                                         authorization := Some (''Bearer '' @ tok)\<rparr>)
                       else (Inl (errorDetail ''Authentication failed''
                                    (Error ''Authentication failed: No token received'')), c1)
                   | None \<Rightarrow>
                       (Inl (errorDetail ''Authentication failed''
                               (Error ''Authentication failed: No token received'')), c1))
              | None \<Rightarrow>
                  (Inl (errorDetail ''Authentication failed''
                          (Error ''Authentication failed: No token received'')), c1))
         | Inl error \<Rightarrow> (Inl (errorDetail ''Authentication failed'' (Failure error)), c1))"

definition ensureAuthenticated :: "Remote \<Rightarrow> Client \<Rightarrow> (string + unit) \<times> Client" where
  "ensureAuthenticated remote c =
     (if \<not> truthyStr (sessionId c) then
        (if truthyStr (accessToken (config c)) then
           (case accessToken (config c) of
              Some tok \<Rightarrow> (Inr (), c\<lparr>sessionId := Some tok,
                                       authorization := Some (''Bearer '' @ tok)\<rparr>)
            | None \<Rightarrow> (Inr (), c))
         else if truthyStr (username (config c)) \<and> truthyStr (password (config c)) then
           authenticate remote c
         else (Inl ''Either accessToken or username/password must be provided'', c))
      else (Inr (), c))"

section \<open>Gateway and Aggregator (getProjects, getTasks, getTasksRaw and the task operations)\<close>

text \<open>
  \<open>fetchProjects\<close> is the \<open>for\<close> loop over the projects, with \<open>allTasks\<close> as its
  accumulator; \<open>fetchInbox\<close> is the inbox fetch with its fallback route.  In
  \<open>getOverdueTasks\<close> and \<open>getTodaysTasks\<close> the clock is read once for all tasks of the
  call.
\<close>

definition getProjects :: "Remote \<Rightarrow> Client \<Rightarrow> (string + TickTickProject list) \<times> Client" where
  "getProjects remote c =
     (case ensureAuthenticated remote c of
        (Inl e, c1) \<Rightarrow> (Inl e, c1)
      | (Inr u, c1) \<Rightarrow>
          (case projectList remote (authorization c1) of
             Inr data \<Rightarrow> (Inr (case data of Some ps \<Rightarrow> ps | None \<Rightarrow> []), sent GetProjectList c1)
           | Inl error \<Rightarrow>
               (Inl (errorMessage ''Failed to get projects'' error), sent GetProjectList c1)))"

definition tasksOf :: "ProjectData option \<Rightarrow> TickTickTask list" where
  "tasksOf data =
     (case data of
        Some d \<Rightarrow> (case tasks d of Some ts \<Rightarrow> ts | None \<Rightarrow> [])
      | None \<Rightarrow> [])"

fun fetchProjects ::
  "Remote \<Rightarrow> TickTickProject list \<Rightarrow> TickTickTask list \<Rightarrow> Client \<Rightarrow> TickTickTask list \<times> Client" where
  "fetchProjects remote [] allTasks c = (allTasks, c)"
| "fetchProjects remote (project # rest) allTasks c =
     (case projectData remote (authorization c) (project_id project) of
        Inr data \<Rightarrow>
          fetchProjects remote rest (allTasks @ tasksOf data)
            (sent (GetProjectData (project_id project)) c)
      | Inl error \<Rightarrow>
          fetchProjects remote rest allTasks
            (warn (''Could not access tasks for project '' @ project_id project @ '' (''
                     @ project_name project @ ''):'') error
               (sent (GetProjectData (project_id project)) c)))"

definition fetchInbox ::
  "Remote \<Rightarrow> TickTickTask list \<Rightarrow> Client \<Rightarrow> TickTickTask list \<times> Client" where
  "fetchInbox remote allTasks c =
     (case projectData remote (authorization c) ''inbox'' of
        Inr data \<Rightarrow> (allTasks @ tasksOf data, sent (GetProjectData ''inbox'') c)
      | Inl error \<Rightarrow>
          (case taskQuery remote (authorization c) ''inbox'' of
             Inr data \<Rightarrow>
               (allTasks @ (case data of Some ts \<Rightarrow> ts | None \<Rightarrow> []),
                sent (GetTaskQuery ''inbox'') (sent (GetProjectData ''inbox'') c))
           | Inl inboxError \<Rightarrow>
               (allTasks,
                warn ''Could not access inbox tasks:'' inboxError
                  (sent (GetTaskQuery ''inbox'') (sent (GetProjectData ''inbox'') c)))))"

definition getTasksRaw ::
  "Remote \<Rightarrow> Client \<Rightarrow> string option \<Rightarrow> (string + TickTickTask list) \<times> Client" where
  "getTasksRaw remote c projectId0 =
     (case ensureAuthenticated remote c of
        (Inl e, c1) \<Rightarrow> (Inl e, c1)
      | (Inr u, c1) \<Rightarrow>
          (if truthyStr projectId0 then
             (case projectId0 of
                Some pid \<Rightarrow>
                  (case projectData remote (authorization c1) pid of
                     Inr data \<Rightarrow> (Inr (tasksOf data), sent (GetProjectData pid) c1)
                   | Inl error \<Rightarrow>
                       (Inl (errorDetail ''Failed to get tasks'' (Failure error)),
                        sent (GetProjectData pid) c1))
              | None \<Rightarrow> (Inr [], c1))
           else
             (case getProjects remote c1 of
                (Inl e, c2) \<Rightarrow> (Inl (errorDetail ''Failed to get tasks'' (Error e)), c2)
              | (Inr projects, c2) \<Rightarrow>
                  (case fetchProjects remote projects [] c2 of
                     (allTasks, c3) \<Rightarrow>
                       (case fetchInbox remote allTasks c3 of
                          (allTasks', c4) \<Rightarrow> (Inr allTasks', c4))))))"

definition getTasks ::
  "Remote \<Rightarrow> Client \<Rightarrow> string option \<Rightarrow> (string + EnhancedTask list) \<times> Client" where
  "getTasks remote c projectId0 =
     (case ensureAuthenticated remote c of
        (Inl e, c1) \<Rightarrow> (Inl e, c1)
      | (Inr u, c1) \<Rightarrow>
          (if truthyStr projectId0 then
             (case projectId0 of
                Some pid \<Rightarrow>
                  (case projectData remote (authorization c1) pid of
                     Inr data \<Rightarrow>
                       (Inr (map enhanceTaskForDisplay (tasksOf data)), sent (GetProjectData pid) c1)
                   | Inl error \<Rightarrow>
                       (Inl (errorDetail ''Failed to get tasks'' (Failure error)),
                        sent (GetProjectData pid) c1))
              | None \<Rightarrow> (Inr [], c1))
           else
             (case getProjects remote c1 of
                (Inl e, c2) \<Rightarrow> (Inl (errorDetail ''Failed to get tasks'' (Error e)), c2)
              | (Inr projects, c2) \<Rightarrow>
                  (case fetchProjects remote projects [] c2 of
                     (allTasks, c3) \<Rightarrow>
                       (case fetchInbox remote allTasks c3 of
                          (allTasks', c4) \<Rightarrow>
                            (Inr (map enhanceTaskForDisplay allTasks'), c4))))))"

definition getOverdueTasks ::
  "Remote \<Rightarrow> (string \<Rightarrow> int option) \<Rightarrow> int \<Rightarrow> Client \<Rightarrow> string option \<Rightarrow> int option
     \<Rightarrow> (string + EnhancedTask list) \<times> Client" where
  "getOverdueTasks remote parse clock c projectId0 timezoneOffsetHours =
     (let timezoneOffsetHours0 = (case timezoneOffsetHours of None \<Rightarrow> 8 | Some h \<Rightarrow> h)
      in case getTasksRaw remote c projectId0 of
           (Inl e, c1) \<Rightarrow> (Inl e, c1)
         | (Inr allTasks, c1) \<Rightarrow>
             (let overdueTasks =
                    filter (\<lambda>task. isTaskOverdue parse clock task (Some timezoneOffsetHours0)) allTasks
              in (Inr (map enhanceTaskForDisplay overdueTasks), c1)))"

definition getTodaysTasks ::
  "Remote \<Rightarrow> (string \<Rightarrow> int option) \<Rightarrow> int \<Rightarrow> Client \<Rightarrow> string option
     \<Rightarrow> (string + EnhancedTask list) \<times> Client" where
  "getTodaysTasks remote parse clock c projectId0 =
     (case getTasksRaw remote c projectId0 of
        (Inl e, c1) \<Rightarrow> (Inl e, c1)
      | (Inr allTasks, c1) \<Rightarrow>
          (let todaysTasks = filter (\<lambda>task. isTaskDueToday parse clock task) allTasks
           in (Inr (map enhanceTaskForDisplay todaysTasks), c1)))"

definition createTask ::
  "Remote \<Rightarrow> Client \<Rightarrow> PartialTask \<Rightarrow> (string + TickTickTask) \<times> Client" where
  "createTask remote c task =
     (case ensureAuthenticated remote c of
        (Inl e, c1) \<Rightarrow> (Inl e, c1)
      | (Inr u, c1) \<Rightarrow>
          (case postTask remote (authorization c1) task of
             Inr data \<Rightarrow> (Inr data, sent (PostTask task) c1)
           | Inl error \<Rightarrow>
               (Inl (errorMessage ''Failed to create task'' error), sent (PostTask task) c1)))"

definition updateTask ::
  "Remote \<Rightarrow> Client \<Rightarrow> string \<Rightarrow> PartialTask \<Rightarrow> (string + TickTickTask) \<times> Client" where
  "updateTask remote c taskId updates =
     (case ensureAuthenticated remote c of
        (Inl e, c1) \<Rightarrow> (Inl e, c1)
      | (Inr u, c1) \<Rightarrow>
          (case postTaskUpdate remote (authorization c1) taskId updates of
             Inr data \<Rightarrow> (Inr data, sent (PostTaskUpdate taskId updates) c1)
           | Inl error \<Rightarrow>
               (Inl (errorMessage ''Failed to update task'' error),
                sent (PostTaskUpdate taskId updates) c1)))"

definition deleteTask ::
  "Remote \<Rightarrow> Client \<Rightarrow> string \<Rightarrow> string \<Rightarrow> (string + unit) \<times> Client" where
  "deleteTask remote c taskId projectId0 =
     (case ensureAuthenticated remote c of
        (Inl e, c1) \<Rightarrow> (Inl e, c1)
      | (Inr u, c1) \<Rightarrow>
          (case deleteTaskAt remote (authorization c1) projectId0 taskId of
             Inr data \<Rightarrow> (Inr (), sent (DeleteTask projectId0 taskId) c1)
           | Inl error \<Rightarrow>
               (Inl (errorMessage ''Failed to delete task'' error),
                sent (DeleteTask projectId0 taskId) c1)))"

definition completeTask ::
  "Remote \<Rightarrow> Client \<Rightarrow> string \<Rightarrow> string \<Rightarrow> (string + TickTickTask) \<times> Client" where
  "completeTask remote c taskId projectId0 =
     (case ensureAuthenticated remote c of
        (Inl e, c1) \<Rightarrow> (Inl e, c1)
      | (Inr u, c1) \<Rightarrow>
          (case postTaskComplete remote (authorization c1) projectId0 taskId of
             Inr data \<Rightarrow> (Inr data, sent (PostTaskComplete projectId0 taskId) c1)
           | Inl error \<Rightarrow>
               (Inl (errorMessage ''Failed to complete task'' error),
                sent (PostTaskComplete projectId0 taskId) c1)))"

definition getTaskById ::
  "Remote \<Rightarrow> Client \<Rightarrow> string \<Rightarrow> string \<Rightarrow> (string + TickTickTask) \<times> Client" where
  "getTaskById remote c taskId projectId0 =
     (case ensureAuthenticated remote c of
        (Inl e, c1) \<Rightarrow> (Inl e, c1)
      | (Inr u, c1) \<Rightarrow>
          (case getTaskAt remote (authorization c1) projectId0 taskId of
             Inr data \<Rightarrow> (Inr data, sent (GetTask projectId0 taskId) c1)
           | Inl error \<Rightarrow>
               (Inl (errorMessage ''Failed to get task'' error),
                sent (GetTask projectId0 taskId) c1)))"

section \<open>Gateway operations as calls\<close>

text \<open>
  \<open>perform\<close> runs one Gateway operation, as the tool handler of index.ts calls it,
  and \<open>performAll\<close> a sequence of them on the same client, each with its own remote
  answers and clock.  A task handed to the caller is \<open>Plain\<close> (a \<open>TickTickTask\<close>, as the
  remote sent it) or \<open>Display\<close> (the output of \<open>enhanceTaskForDisplay\<close>, with
  \<open>priorityText\<close>), by the type of what the operation returns.
\<close>

datatype GatewayCall =
    CallGetTasks "string option"
  | CallGetOverdueTasks "string option" "int option"
  | CallGetTodaysTasks "string option"
  | CallGetProjects
  | CallCreateTask PartialTask
  | CallUpdateTask string PartialTask
  | CallDeleteTask string string
  | CallCompleteTask string string
  | CallGetTaskById string string

datatype Returned = Plain TickTickTask | Display EnhancedTask

datatype Outcome = Tasks "Returned list" | Projects "TickTickProject list" | OneTask Returned | Done

definition carriesPriorityText :: "Returned \<Rightarrow> bool" where
  "carriesPriorityText r = (case r of Plain t \<Rightarrow> False | Display t \<Rightarrow> True)"

definition returning :: "('a \<Rightarrow> Outcome) \<Rightarrow> (string + 'a) \<times> Client \<Rightarrow> (string + Outcome) \<times> Client" where
  "returning f r = (case r of (Inl e, c) \<Rightarrow> (Inl e, c) | (Inr v, c) \<Rightarrow> (Inr (f v), c))"

fun perform ::
  "Remote \<Rightarrow> (string \<Rightarrow> int option) \<Rightarrow> int \<Rightarrow> Client \<Rightarrow> GatewayCall \<Rightarrow> (string + Outcome) \<times> Client" where
  "perform remote parse clock c (CallGetTasks pid) =
     returning (\<lambda>ts. Tasks (map Display ts)) (getTasks remote c pid)"
| "perform remote parse clock c (CallGetOverdueTasks pid tz) =
     returning (\<lambda>ts. Tasks (map Display ts)) (getOverdueTasks remote parse clock c pid tz)"
| "perform remote parse clock c (CallGetTodaysTasks pid) =
     returning (\<lambda>ts. Tasks (map Display ts)) (getTodaysTasks remote parse clock c pid)"
| "perform remote parse clock c CallGetProjects =
     returning Projects (getProjects remote c)"
| "perform remote parse clock c (CallCreateTask task) =
     returning (\<lambda>t. OneTask (Plain t)) (createTask remote c task)"
| "perform remote parse clock c (CallUpdateTask taskId updates) =
     returning (\<lambda>t. OneTask (Plain t)) (updateTask remote c taskId updates)"
| "perform remote parse clock c (CallDeleteTask taskId pid) =
     returning (\<lambda>u. Done) (deleteTask remote c taskId pid)"
| "perform remote parse clock c (CallCompleteTask taskId pid) =
     returning (\<lambda>t. OneTask (Plain t)) (completeTask remote c taskId pid)"
| "perform remote parse clock c (CallGetTaskById taskId pid) =
     returning (\<lambda>t. OneTask (Plain t)) (getTaskById remote c taskId pid)"

fun performAll ::
  "(string \<Rightarrow> int option) \<Rightarrow> Client \<Rightarrow> (Remote \<times> int \<times> GatewayCall) list \<Rightarrow> Client" where
  "performAll parse c [] = c"
| "performAll parse c ((remote, clock, call) # rest) =
     performAll parse (snd (perform remote parse clock c call)) rest"

text \<open>
  \<open>sameSession c c'\<close>: the session credential, the header and the configuration are
  unchanged, and no password-grant request was sent between \<open>c\<close> and \<open>c'\<close>.
\<close>

definition isSignon :: "Request \<Rightarrow> bool" where
  "isSignon r = (case r of PostSignon u p \<Rightarrow> True | _ \<Rightarrow> False)"

definition sameSession :: "Client \<Rightarrow> Client \<Rightarrow> bool" where
  "sameSession c c' =
     (sessionId c' = sessionId c \<and> authorization c' = authorization c \<and> config c' = config c
      \<and> filter isSignon (requests c') = filter isSignon (requests c))"

text \<open>
  The aggregate result in the specification's words: what each project contributes
  (its tasks, or nothing when its fetch fails), what the inbox contributes, and the
  warnings recorded.
\<close>

definition projectTasks :: "Remote \<Rightarrow> string option \<Rightarrow> TickTickProject \<Rightarrow> TickTickTask list" where
  "projectTasks remote auth p =
     (case projectData remote auth (project_id p) of Inr data \<Rightarrow> tasksOf data | Inl e \<Rightarrow> [])"

definition projectWarnings :: "Remote \<Rightarrow> string option \<Rightarrow> TickTickProject \<Rightarrow> Warning list" where
  "projectWarnings remote auth p =
     (case projectData remote auth (project_id p) of
        Inr data \<Rightarrow> []
      | Inl e \<Rightarrow>
          [\<lparr>warning_text = ''Could not access tasks for project '' @ project_id p @ '' (''
                             @ project_name p @ ''):'',
            warning_cause = e\<rparr>])"

definition inboxTasks :: "Remote \<Rightarrow> string option \<Rightarrow> TickTickTask list" where
  "inboxTasks remote auth =
     (case projectData remote auth ''inbox'' of
        Inr data \<Rightarrow> tasksOf data
      | Inl e \<Rightarrow>
          (case taskQuery remote auth ''inbox'' of
             Inr data \<Rightarrow> (case data of Some ts \<Rightarrow> ts | None \<Rightarrow> [])
           | Inl e2 \<Rightarrow> []))"

definition inboxWarnings :: "Remote \<Rightarrow> string option \<Rightarrow> Warning list" where
  "inboxWarnings remote auth =
     (case projectData remote auth ''inbox'' of
        Inr data \<Rightarrow> []
      | Inl e \<Rightarrow>
          (case taskQuery remote auth ''inbox'' of
             Inr data \<Rightarrow> []
           | Inl e2 \<Rightarrow> [\<lparr>warning_text = ''Could not access inbox tasks:'', warning_cause = e2\<rparr>]))"

section \<open>Example remote and configurations\<close>

text \<open>
  A remote with three projects (the inbox among them; project \<open>pA\<close> cannot be read),
  whose task-modifying endpoints fail with status 500, and three configurations: an
  access token, a user name with password, and neither.
\<close>

definition exampleFailure :: AxiosError where
  "exampleFailure =
     \<lparr> message = ''Request failed with status code 500'',
       response = Some \<lparr> resp_status = 500, resp_statusText = ''Internal Server Error'',
                         resp_data = Some ''[1001]'' \<rparr> \<rparr>"

definition exampleProjects :: "TickTickProject list" where
  "exampleProjects =
     [\<lparr>project_id = ''inbox'', project_name = ''Inbox''\<rparr>,
      \<lparr>project_id = ''pA'', project_name = ''Work''\<rparr>,
      \<lparr>project_id = ''pB'', project_name = ''Home''\<rparr>]"

definition exampleRemote :: Remote where
  "exampleRemote =
     \<lparr> signon = (\<lambda>auth u p. Inr (Some \<lparr>token = Some ''tok-1''\<rparr>)),
       projectList = (\<lambda>auth. Inr (Some exampleProjects)),
       projectData = (\<lambda>auth pid.
          if pid = ''inbox'' then Inr (Some \<lparr>tasks = Some [exampleTask\<lparr>id' := ''t0''\<rparr>]\<rparr>)
          else if pid = ''pB''
            then Inr (Some \<lparr>tasks = Some [exampleTask, exampleTask\<lparr>id' := ''t2''\<rparr>]\<rparr>)
          else Inl exampleFailure),
       taskQuery = (\<lambda>auth q. Inl exampleFailure),
       postTask = (\<lambda>auth t. Inl exampleFailure),
       postTaskUpdate = (\<lambda>auth tid t. Inl exampleFailure),
       deleteTaskAt = (\<lambda>auth pid tid. Inl exampleFailure),
       postTaskComplete = (\<lambda>auth pid tid. Inl exampleFailure),
       getTaskAt = (\<lambda>auth pid tid.
          if pid = ''pB'' \<and> tid = ''t1'' then Inr exampleTask else Inl exampleFailure) \<rparr>"

definition failingRemote :: Remote where
  "failingRemote = exampleRemote\<lparr>projectList := (\<lambda>auth. Inl exampleFailure)\<rparr>"

definition tokenConfig :: TickTickConfig where
  "tokenConfig =
     \<lparr> username = None, password = None, accessToken = Some ''tok-0'', refreshToken = None,
       clientId = None, clientSecret = None \<rparr>"

definition passwordConfig :: TickTickConfig where
  "passwordConfig =
     \<lparr> username = Some ''ada'', password = Some ''secret'', accessToken = None,
       refreshToken = None, clientId = None, clientSecret = None \<rparr>"

definition emptyConfig :: TickTickConfig where
  "emptyConfig =
     \<lparr> username = Some ''ada'', password = None, accessToken = None, refreshToken = None,
       clientId = None, clientSecret = None \<rparr>"

definition returnedTasks :: "Outcome \<Rightarrow> Returned list" where
  "returnedTasks out = (case out of Tasks rs \<Rightarrow> rs | OneTask r \<Rightarrow> [r] | _ \<Rightarrow> [])"

definition examplePartial :: PartialTask where
  "examplePartial =
     \<lparr> arg_taskId = None, arg_title = Some ''Pay rent'', arg_content = None,
       arg_projectId = Some ''pB'', arg_dueDate = None, arg_priority = Some 3, arg_tags = None \<rparr>"

section \<open>Properties of the Session Manager, the Gateway and the Aggregator\<close>

lemmas client_eval = ensureAuthenticated_def authenticate_def getProjects_def getTasksRaw_def
  getTasks_def getOverdueTasks_def getTodaysTasks_def createTask_def updateTask_def
  deleteTask_def completeTask_def getTaskById_def fetchInbox_def tasksOf_def errorDetail_def
  errorMessage_def sent_def warn_def truthyStr_def Let_def returning_def

lemma sent_simps [simp]:
  "sessionId (sent r c) = sessionId c" "authorization (sent r c) = authorization c"
  "config (sent r c) = config c" "warnings (sent r c) = warnings c"
  "requests (sent r c) = requests c @ [r]"
  by (simp_all add: sent_def)

lemma warn_simps [simp]:
  "sessionId (warn t e c) = sessionId c" "authorization (warn t e c) = authorization c"
  "config (warn t e c) = config c" "requests (warn t e c) = requests c"
  "warnings (warn t e c) = warnings c @ [\<lparr>warning_text = t, warning_cause = e\<rparr>]"
  by (simp_all add: warn_def)

lemma fetchProjects_result:
  "fst (fetchProjects remote ps acc c) = acc @ concat (map (projectTasks remote (authorization c)) ps)"
  by (induction ps arbitrary: acc c) (simp_all add: projectTasks_def split: sum.split)

lemma fetchProjects_state:
  "sessionId (snd (fetchProjects remote ps acc c)) = sessionId c
   \<and> authorization (snd (fetchProjects remote ps acc c)) = authorization c
   \<and> config (snd (fetchProjects remote ps acc c)) = config c
   \<and> requests (snd (fetchProjects remote ps acc c))
       = requests c @ map (\<lambda>p. GetProjectData (project_id p)) ps
   \<and> warnings (snd (fetchProjects remote ps acc c))
       = warnings c @ concat (map (projectWarnings remote (authorization c)) ps)"
  by (induction ps arbitrary: acc c) (simp_all add: projectWarnings_def split: sum.split)

lemma fetchInbox_result:
  "fst (fetchInbox remote acc c) = acc @ inboxTasks remote (authorization c)"
  by (simp add: fetchInbox_def inboxTasks_def split: sum.split)

lemma fetchInbox_state:
  "sessionId (snd (fetchInbox remote acc c)) = sessionId c
   \<and> authorization (snd (fetchInbox remote acc c)) = authorization c
   \<and> config (snd (fetchInbox remote acc c)) = config c
   \<and> filter isSignon (requests (snd (fetchInbox remote acc c))) = filter isSignon (requests c)
   \<and> warnings (snd (fetchInbox remote acc c)) = warnings c @ inboxWarnings remote (authorization c)"
  by (simp add: fetchInbox_def inboxWarnings_def isSignon_def split: sum.split)

lemma ensureAuthenticated_session:
  "truthyStr (sessionId c) \<Longrightarrow> ensureAuthenticated remote c = (Inr (), c)"
  by (simp add: ensureAuthenticated_def)

lemma getProjects_session:
  assumes "truthyStr (sessionId c)"
  shows "getProjects remote c =
           (case projectList remote (authorization c) of
              Inr data \<Rightarrow> (Inr (case data of Some ps \<Rightarrow> ps | None \<Rightarrow> []), sent GetProjectList c)
            | Inl error \<Rightarrow> (Inl (errorMessage ''Failed to get projects'' error), sent GetProjectList c))"
  by (simp add: getProjects_def ensureAuthenticated_session [OF assms])

lemma aggregate_raw:
  assumes "ensureAuthenticated remote c = (Inr (), c1)" "truthyStr (sessionId c1)"
    and "\<not> truthyStr projectId0"
    and "projectList remote (authorization c1) = Inr data"
  shows "getTasksRaw remote c projectId0 =
           (case fetchProjects remote (case data of Some ps \<Rightarrow> ps | None \<Rightarrow> []) []
                   (sent GetProjectList c1) of
              (allTasks, c3) \<Rightarrow>
                (case fetchInbox remote allTasks c3 of (allTasks', c4) \<Rightarrow> (Inr allTasks', c4)))"
  using assms(3,4)
  by (simp add: getTasksRaw_def assms(1) getProjects_session [OF assms(2)])

lemma aggregate_display:
  assumes "ensureAuthenticated remote c = (Inr (), c1)" "truthyStr (sessionId c1)"
    and "\<not> truthyStr projectId0"
    and "projectList remote (authorization c1) = Inr data"
  shows "getTasks remote c projectId0 =
           (case fetchProjects remote (case data of Some ps \<Rightarrow> ps | None \<Rightarrow> []) []
                   (sent GetProjectList c1) of
              (allTasks, c3) \<Rightarrow>
                (case fetchInbox remote allTasks c3 of
                   (allTasks', c4) \<Rightarrow> (Inr (map enhanceTaskForDisplay allTasks'), c4)))"
  using assms(3,4)
  by (simp add: getTasks_def assms(1) getProjects_session [OF assms(2)])

lemma ensureAuthenticated_established:
  "ensureAuthenticated remote c = (Inr (), c1) \<Longrightarrow> truthyStr (sessionId c1)"
  by (auto simp: ensureAuthenticated_def authenticate_def truthyStr_def Let_def
      split: if_splits option.splits sum.splits)

text \<open>
  C5.  When the session is established and the projects are listed, the aggregate
  fetch (\<open>getTasksRaw\<close> and \<open>getTasks\<close> without a project id) does not abort on a
  project whose tasks cannot be fetched: it returns, in the order of the project list,
  the tasks of every project whose fetch succeeds, followed by the inbox tasks; a
  failed project contributes no task and one warning.  Nothing is de-duplicated:
  \<open>getTasks\<close> returns the normalized records of the same list, and an inbox that is
  also listed as a project contributes its tasks twice (the witness).
\<close>

theorem aggregate_fetch_partial_results:
  assumes "ensureAuthenticated remote c = (Inr (), c1)"
    and "\<not> truthyStr projectId0"
    and "projectList remote (authorization c1) = Inr data"
  shows "fst (getTasksRaw remote c projectId0) =
           Inr (concat (map (projectTasks remote (authorization c1))
                          (case data of Some ps \<Rightarrow> ps | None \<Rightarrow> []))
                @ inboxTasks remote (authorization c1))
         \<and> fst (getTasks remote c projectId0) =
           Inr (map enhanceTaskForDisplay
                  (concat (map (projectTasks remote (authorization c1))
                             (case data of Some ps \<Rightarrow> ps | None \<Rightarrow> []))
                   @ inboxTasks remote (authorization c1)))
         \<and> warnings (snd (getTasksRaw remote c projectId0)) =
           warnings c1
           @ concat (map (projectWarnings remote (authorization c1))
                       (case data of Some ps \<Rightarrow> ps | None \<Rightarrow> []))
           @ inboxWarnings remote (authorization c1)
         \<and> snd (getTasks remote c projectId0) = snd (getTasksRaw remote c projectId0)"
proof -
  let ?ps = "case data of Some ps \<Rightarrow> ps | None \<Rightarrow> []"
  let ?c2 = "sent GetProjectList c1"
  obtain ts c3 where f: "fetchProjects remote ?ps [] ?c2 = (ts, c3)" by (cases "fetchProjects remote ?ps [] ?c2")
  obtain ts' c4 where g: "fetchInbox remote ts c3 = (ts', c4)" by (cases "fetchInbox remote ts c3")
  have e: "truthyStr (sessionId c1)" by (rule ensureAuthenticated_established [OF assms(1)])
  have ts: "ts = concat (map (projectTasks remote (authorization c1)) ?ps)"
    using fetchProjects_result [of remote ?ps "[]" ?c2] f by simp
  have c3: "authorization c3 = authorization c1"
    "warnings c3 = warnings c1 @ concat (map (projectWarnings remote (authorization c1)) ?ps)"
    using fetchProjects_state [of remote ?ps "[]" ?c2] f by simp_all
  have ts': "ts' = ts @ inboxTasks remote (authorization c1)"
    using fetchInbox_result [of remote ts c3] g c3(1) by simp
  have c4: "warnings c4 = warnings c3 @ inboxWarnings remote (authorization c1)"
    using fetchInbox_state [of remote ts c3] g c3(1) by simp
  have r: "getTasksRaw remote c projectId0 = (Inr ts', c4)"
    unfolding aggregate_raw [OF assms(1) e assms(2,3)] by (simp add: f g)
  have d: "getTasks remote c projectId0 = (Inr (map enhanceTaskForDisplay ts'), c4)"
    unfolding aggregate_display [OF assms(1) e assms(2,3)] by (simp add: f g)
  show ?thesis unfolding r d by (simp add: ts' ts c4 c3)
qed

theorem aggregate_fetch_partial_results_witness:
  "ensureAuthenticated exampleRemote (newClient tokenConfig) = (Inr (), newClient tokenConfig)
   \<and> projectList exampleRemote (authorization (newClient tokenConfig)) = Inr (Some exampleProjects)
   \<and> fst (getTasksRaw exampleRemote (newClient tokenConfig) None)
       = Inr [exampleTask\<lparr>id' := ''t0''\<rparr>, exampleTask, exampleTask\<lparr>id' := ''t2''\<rparr>,
              exampleTask\<lparr>id' := ''t0''\<rparr>]
   \<and> map warning_text (warnings (snd (getTasksRaw exampleRemote (newClient tokenConfig) None)))
       = [''Could not access tasks for project pA (Work):'']"
  using aggregate_fetch_partial_results [of exampleRemote "newClient tokenConfig"
      "newClient tokenConfig" None "Some exampleProjects"]
  by (simp add: exampleRemote_def exampleProjects_def exampleFailure_def tokenConfig_def
      newClient_def ensureAuthenticated_def truthyStr_def projectTasks_def projectWarnings_def
      inboxTasks_def inboxWarnings_def tasksOf_def)

lemma sameSession_refl [simp]: "sameSession c c"
  by (simp add: sameSession_def)

lemma sameSession_trans: "sameSession a b \<Longrightarrow> sameSession b c \<Longrightarrow> sameSession a c"
  by (simp add: sameSession_def)

lemma sameSession_sent: "\<not> isSignon r \<Longrightarrow> sameSession c (sent r c)"
  by (simp add: sameSession_def)

lemma no_signon_in_fetches [simp]:
  "filter isSignon (map (\<lambda>p. GetProjectData (project_id p)) ps) = []"
  by (induction ps) (simp_all add: isSignon_def)

lemma sameSession_fetchProjects: "sameSession c (snd (fetchProjects remote ps acc c))"
  using fetchProjects_state [of remote ps acc c] by (simp add: sameSession_def)

lemma sameSession_fetchInbox: "sameSession c (snd (fetchInbox remote acc c))"
  using fetchInbox_state [of remote acc c] by (simp add: sameSession_def)

lemma sameSession_getProjects:
  "truthyStr (sessionId c) \<Longrightarrow> sameSession c (snd (getProjects remote c))"
  by (simp add: getProjects_session sameSession_sent isSignon_def split: sum.split)

lemma sameSession_getTasksRaw:
  assumes "truthyStr (sessionId c)"
  shows "sameSession c (snd (getTasksRaw remote c pid))"
proof (cases "truthyStr pid")
  case True
  then show ?thesis
    by (auto simp: getTasksRaw_def ensureAuthenticated_session [OF assms] sameSession_sent
        isSignon_def split: option.split sum.split)
next
  case False
  show ?thesis
  proof (cases "projectList remote (authorization c)")
    case (Inl e)
    then show ?thesis
      using False
      by (simp add: getTasksRaw_def ensureAuthenticated_session [OF assms]
          getProjects_session [OF assms] sameSession_sent isSignon_def)
  next
    case (Inr data)
    let ?ps = "case data of Some ps \<Rightarrow> ps | None \<Rightarrow> []"
    let ?c2 = "sent GetProjectList c"
    obtain ts c3 where f: "fetchProjects remote ?ps [] ?c2 = (ts, c3)"
      by (cases "fetchProjects remote ?ps [] ?c2")
    obtain ts' c4 where g: "fetchInbox remote ts c3 = (ts', c4)" by (cases "fetchInbox remote ts c3")
    have "sameSession c ?c2" by (simp add: sameSession_sent isSignon_def)
    moreover have "sameSession ?c2 c3" using sameSession_fetchProjects [of ?c2 remote ?ps "[]"] f by simp
    moreover have "sameSession c3 c4" using sameSession_fetchInbox [of c3 remote ts] g by simp
    ultimately have "sameSession c c4" by (blast intro: sameSession_trans)
    moreover have "getTasksRaw remote c pid = (Inr ts', c4)"
      using aggregate_raw [OF ensureAuthenticated_session [OF assms] assms False Inr]
      by (simp add: f g)
    ultimately show ?thesis by simp
  qed
qed

lemma getTasks_state: "snd (getTasks remote c pid) = snd (getTasksRaw remote c pid)"
  by (simp add: getTasks_def getTasksRaw_def split: prod.split sum.split option.split)

lemma snd_returning [simp]: "snd (returning f r) = snd r"
  by (simp add: returning_def split: prod.split sum.split)

lemma getOverdueTasks_state:
  "snd (getOverdueTasks remote parse clock c pid tz) = snd (getTasksRaw remote c pid)"
  by (simp add: getOverdueTasks_def split: prod.split sum.split)

lemma getTodaysTasks_state:
  "snd (getTodaysTasks remote parse clock c pid) = snd (getTasksRaw remote c pid)"
  by (simp add: getTodaysTasks_def split: prod.split sum.split)

lemma sameSession_perform:
  assumes "truthyStr (sessionId c)"
  shows "sameSession c (snd (perform remote parse clock c call))"
proof (cases call)
  case (CallGetTasks pid)
  then show ?thesis
    using sameSession_getTasksRaw [OF assms, of remote pid] by (simp add: getTasks_state)
next
  case (CallGetOverdueTasks pid tz)
  then show ?thesis
    using sameSession_getTasksRaw [OF assms, of remote pid] by (simp add: getOverdueTasks_state)
next
  case (CallGetTodaysTasks pid)
  then show ?thesis
    using sameSession_getTasksRaw [OF assms, of remote pid] by (simp add: getTodaysTasks_state)
next
  case CallGetProjects
  then show ?thesis
    using sameSession_getProjects [OF assms, of remote] by simp
next
  case (CallCreateTask task)
  then show ?thesis
    by (simp add: createTask_def ensureAuthenticated_session [OF assms]
        sameSession_sent isSignon_def split: sum.split)
next
  case (CallUpdateTask tid updates)
  then show ?thesis
    by (simp add: updateTask_def ensureAuthenticated_session [OF assms]
        sameSession_sent isSignon_def split: sum.split)
next
  case (CallDeleteTask tid pid)
  then show ?thesis
    by (simp add: deleteTask_def ensureAuthenticated_session [OF assms]
        sameSession_sent isSignon_def split: sum.split)
next
  case (CallCompleteTask tid pid)
  then show ?thesis
    by (simp add: completeTask_def ensureAuthenticated_session [OF assms]
        sameSession_sent isSignon_def split: sum.split)
next
  case (CallGetTaskById tid pid)
  then show ?thesis
    by (simp add: getTaskById_def ensureAuthenticated_session [OF assms]
        sameSession_sent isSignon_def split: sum.split)
qed

lemma sameSession_performAll:
  "truthyStr (sessionId c) \<Longrightarrow> sameSession c (performAll parse c steps)"
proof (induction steps arbitrary: c)
  case Nil
  then show ?case by simp
next
  case (Cons step steps)
  obtain remote clock call where s: "step = (remote, clock, call)" by (cases step)
  let ?c1 = "snd (perform remote parse clock c call)"
  have a: "sameSession c ?c1" by (rule sameSession_perform [OF Cons.prems])
  then have "truthyStr (sessionId ?c1)" using Cons.prems by (simp add: sameSession_def)
  from Cons.IH [OF this] a show ?case unfolding s by (auto intro: sameSession_trans)
qed

lemma authenticate_requests:
  "requests (snd (authenticate remote c))
     = requests c @ [PostSignon (username (config c)) (password (config c))]"
  by (simp add: authenticate_def Let_def split: sum.split option.split)

lemma authenticate_result:
  "(case signon remote (authorization c) (username (config c)) (password (config c)) of
      Inr (Some d) \<Rightarrow>
        if truthyStr (token d)
        then authenticate remote c =
               (Inr (), c\<lparr>sessionId := token d,
                           authorization := map_option (\<lambda>tok. ''Bearer '' @ tok) (token d),
                           requests := requests c
                             @ [PostSignon (username (config c)) (password (config c))]\<rparr>)
        else isl (fst (authenticate remote c))
             \<and> sessionId (snd (authenticate remote c)) = sessionId c
    | _ \<Rightarrow> isl (fst (authenticate remote c))
           \<and> sessionId (snd (authenticate remote c)) = sessionId c)"
  by (auto simp: authenticate_def Let_def sent_def truthyStr_def split: sum.split option.split)

text \<open>
  C6.  \<open>ensureAuthenticated\<close>: with a cached credential it returns at once, the state
  (and so the list of requests sent) unchanged; otherwise, with a configured access
  token, it adopts the token and sends nothing; otherwise, with user name and
  password, it is the password-grant exchange \<open>authenticate\<close>, which sends exactly the
  sign-on request and adopts the token the remote returns (and fails, leaving the
  session unset, when there is none); otherwise it fails with the configuration
  error.  Once a credential is established, every sequence of Gateway operations
  leaves it and the header unchanged and sends no sign-on request.
\<close>

theorem ensureAuthenticated_contract:
  "(truthyStr (sessionId c) \<longrightarrow>
      ensureAuthenticated remote c = (Inr (), c) \<and> sameSession c (performAll parse c steps))
   \<and> (\<not> truthyStr (sessionId c) \<and> truthyStr (accessToken (config c)) \<longrightarrow>
        ensureAuthenticated remote c =
          (Inr (), c\<lparr>sessionId := accessToken (config c),
                      authorization := map_option (\<lambda>tok. ''Bearer '' @ tok) (accessToken (config c))\<rparr>))
   \<and> (\<not> truthyStr (sessionId c) \<and> \<not> truthyStr (accessToken (config c))
        \<and> truthyStr (username (config c)) \<and> truthyStr (password (config c)) \<longrightarrow>
        ensureAuthenticated remote c = authenticate remote c
        \<and> requests (snd (authenticate remote c))
            = requests c @ [PostSignon (username (config c)) (password (config c))]
        \<and> (case signon remote (authorization c) (username (config c)) (password (config c)) of
              Inr (Some d) \<Rightarrow>
                if truthyStr (token d)
                then authenticate remote c =
                       (Inr (), c\<lparr>sessionId := token d,
                                   authorization := map_option (\<lambda>tok. ''Bearer '' @ tok) (token d),
                                   requests := requests c
                                     @ [PostSignon (username (config c)) (password (config c))]\<rparr>)
                else isl (fst (authenticate remote c))
                     \<and> sessionId (snd (authenticate remote c)) = sessionId c
            | _ \<Rightarrow> isl (fst (authenticate remote c))
                   \<and> sessionId (snd (authenticate remote c)) = sessionId c))
   \<and> (\<not> truthyStr (sessionId c) \<and> \<not> truthyStr (accessToken (config c))
        \<and> \<not> (truthyStr (username (config c)) \<and> truthyStr (password (config c))) \<longrightarrow>
        ensureAuthenticated remote c =
          (Inl ''Either accessToken or username/password must be provided'', c))"
proof (intro conjI impI)
  assume "truthyStr (sessionId c)"
  then show "ensureAuthenticated remote c = (Inr (), c)"
    and "sameSession c (performAll parse c steps)"
    by (simp_all add: ensureAuthenticated_session sameSession_performAll)
next
  assume "\<not> truthyStr (sessionId c) \<and> truthyStr (accessToken (config c))"
  then show "ensureAuthenticated remote c =
          (Inr (), c\<lparr>sessionId := accessToken (config c),
                      authorization := map_option (\<lambda>tok. ''Bearer '' @ tok) (accessToken (config c))\<rparr>)"
    by (auto simp: ensureAuthenticated_def truthyStr_def split: option.splits)
next
  assume "\<not> truthyStr (sessionId c) \<and> \<not> truthyStr (accessToken (config c))
        \<and> truthyStr (username (config c)) \<and> truthyStr (password (config c))"
  then show "ensureAuthenticated remote c = authenticate remote c"
    by (simp add: ensureAuthenticated_def)
next
  show "requests (snd (authenticate remote c))
            = requests c @ [PostSignon (username (config c)) (password (config c))]"
    by (rule authenticate_requests)
next
  show "(case signon remote (authorization c) (username (config c)) (password (config c)) of
              Inr (Some d) \<Rightarrow>
                if truthyStr (token d)
                then authenticate remote c =
                       (Inr (), c\<lparr>sessionId := token d,
                                   authorization := map_option (\<lambda>tok. ''Bearer '' @ tok) (token d),
                                   requests := requests c
                                     @ [PostSignon (username (config c)) (password (config c))]\<rparr>)
                else isl (fst (authenticate remote c))
                     \<and> sessionId (snd (authenticate remote c)) = sessionId c
            | _ \<Rightarrow> isl (fst (authenticate remote c))
                   \<and> sessionId (snd (authenticate remote c)) = sessionId c)"
    by (rule authenticate_result)
next
  assume "\<not> truthyStr (sessionId c) \<and> \<not> truthyStr (accessToken (config c))
        \<and> \<not> (truthyStr (username (config c)) \<and> truthyStr (password (config c)))"
  then show "ensureAuthenticated remote c =
          (Inl ''Either accessToken or username/password must be provided'', c)"
    by (auto simp: ensureAuthenticated_def)
qed

theorem ensureAuthenticated_contract_witness:
  "ensureAuthenticated exampleRemote (newClient tokenConfig) = (Inr (), newClient tokenConfig)
   \<and> sameSession (newClient tokenConfig)
        (performAll exampleParse (newClient tokenConfig)
           [(exampleRemote, 1704974400000, CallGetTasks None),
            (failingRemote, 1704974400000, CallGetProjects),
            (exampleRemote, 1705017600000, CallGetTaskById ''t1'' ''pB'')])
   \<and> sessionId (newClient tokenConfig) = Some ''tok-0''
   \<and> ensureAuthenticated exampleRemote
        ((newClient tokenConfig)\<lparr>sessionId := None, authorization := None\<rparr>)
       = (Inr (), newClient tokenConfig)
   \<and> ensureAuthenticated exampleRemote (newClient passwordConfig)
       = (Inr (), (newClient passwordConfig)
            \<lparr>sessionId := Some ''tok-1'', authorization := Some ''Bearer tok-1'',
             requests := [PostSignon (Some ''ada'') (Some ''secret'')]\<rparr>)
   \<and> ensureAuthenticated exampleRemote (newClient emptyConfig)
       = (Inl ''Either accessToken or username/password must be provided'', newClient emptyConfig)"
  using ensureAuthenticated_contract [of "newClient tokenConfig" exampleRemote exampleParse
      "[(exampleRemote, 1704974400000, CallGetTasks None),
        (failingRemote, 1704974400000, CallGetProjects),
        (exampleRemote, 1705017600000, CallGetTaskById ''t1'' ''pB'')]"]
    ensureAuthenticated_contract
      [of "(newClient tokenConfig)\<lparr>sessionId := None, authorization := None\<rparr>" exampleRemote
        exampleParse "[]"]
    ensureAuthenticated_contract [of "newClient passwordConfig" exampleRemote exampleParse "[]"]
    ensureAuthenticated_contract [of "newClient emptyConfig" exampleRemote exampleParse "[]"]
  by (simp add: newClient_def tokenConfig_def passwordConfig_def emptyConfig_def truthyStr_def
      exampleRemote_def)

text \<open>
  What the six operations with the plain \<open>catch\<close> raise when their request fails: the
  name of the operation and the message of the axios error, whatever its response is.
\<close>

lemma gateway_errors_carry_message_only:
  assumes "truthyStr (sessionId c)"
  shows "projectList remote (authorization c) = Inl e \<Longrightarrow>
           fst (getProjects remote c) = Inl (''Failed to get projects: '' @ message e)"
    and "postTask remote (authorization c) task = Inl e \<Longrightarrow>
           fst (createTask remote c task) = Inl (''Failed to create task: '' @ message e)"
    and "postTaskUpdate remote (authorization c) taskId task = Inl e \<Longrightarrow>
           fst (updateTask remote c taskId task) = Inl (''Failed to update task: '' @ message e)"
    and "deleteTaskAt remote (authorization c) pid taskId = Inl e \<Longrightarrow>
           fst (deleteTask remote c taskId pid) = Inl (''Failed to delete task: '' @ message e)"
    and "postTaskComplete remote (authorization c) pid taskId = Inl e \<Longrightarrow>
           fst (completeTask remote c taskId pid) = Inl (''Failed to complete task: '' @ message e)"
    and "getTaskAt remote (authorization c) pid taskId = Inl e \<Longrightarrow>
           fst (getTaskById remote c taskId pid) = Inl (''Failed to get task: '' @ message e)"
  by (simp_all add: getProjects_def createTask_def updateTask_def deleteTask_def
      completeTask_def getTaskById_def ensureAuthenticated_session [OF assms] errorMessage_def)

text \<open>
  C7.  The claim: every error a Gateway operation raises carries the status code, the
  status text and the body (or message) of the transport failure.  \<open>getTasks\<close> does
  so, but \<open>getProjects\<close>, \<open>createTask\<close>, \<open>updateTask\<close>, \<open>deleteTask\<close>, \<open>completeTask\<close>
  and \<open>getTaskById\<close> keep the message of the axios error only: on a failure with
  status 500, status text \<open>Internal Server Error\<close> and body \<open>[1001]\<close>, their errors
  hold neither the status text nor the body.
\<close>

theorem gateway_errors_drop_detail:
  "fst (getProjects failingRemote (newClient tokenConfig))
     = Inl ''Failed to get projects: Request failed with status code 500''
   \<and> fst (createTask exampleRemote (newClient tokenConfig) examplePartial)
     = Inl ''Failed to create task: Request failed with status code 500''
   \<and> fst (updateTask exampleRemote (newClient tokenConfig) ''t1'' examplePartial)
     = Inl ''Failed to update task: Request failed with status code 500''
   \<and> fst (deleteTask exampleRemote (newClient tokenConfig) ''t1'' ''pB'')
     = Inl ''Failed to delete task: Request failed with status code 500''
   \<and> fst (completeTask exampleRemote (newClient tokenConfig) ''t1'' ''pB'')
     = Inl ''Failed to complete task: Request failed with status code 500''
   \<and> fst (getTaskById exampleRemote (newClient tokenConfig) ''t9'' ''pB'')
     = Inl ''Failed to get task: Request failed with status code 500''
   \<and> fst (getTasks exampleRemote (newClient tokenConfig) (Some ''pA''))
     = Inl ''Failed to get tasks: 500 Internal Server Error - [1001]''
   \<and> response exampleFailure
     = Some \<lparr>resp_status = 500, resp_statusText = ''Internal Server Error'',
              resp_data = Some ''[1001]''\<rparr>"
  by (simp add: exampleRemote_def failingRemote_def exampleFailure_def tokenConfig_def
      newClient_def client_eval number_eval)

text \<open>
  C8 (as amended).  The list operations \<open>getTasks\<close>, \<open>getOverdueTasks\<close> and
  \<open>getTodaysTasks\<close> return only outputs of the Display Normalizer, which carry
  \<open>priorityText\<close>; \<open>createTask\<close>, \<open>updateTask\<close>, \<open>completeTask\<close> and \<open>getTaskById\<close>
  return the record the remote sent, as it is.
\<close>

theorem display_normalizer_scope:
  assumes "fst (perform remote parse clock c call) = Inr out"
  shows "case call of
           CallGetTasks pid \<Rightarrow>
             \<exists>ts. out = Tasks (map (\<lambda>t. Display (enhanceTaskForDisplay t)) ts)
         | CallGetOverdueTasks pid tz \<Rightarrow>
             \<exists>ts. out = Tasks (map (\<lambda>t. Display (enhanceTaskForDisplay t)) ts)
         | CallGetTodaysTasks pid \<Rightarrow>
             \<exists>ts. out = Tasks (map (\<lambda>t. Display (enhanceTaskForDisplay t)) ts)
         | CallGetProjects \<Rightarrow> \<exists>ps. out = Projects ps
         | CallCreateTask task \<Rightarrow>
             \<exists>t. out = OneTask (Plain t)
               \<and> postTask remote (authorization (snd (ensureAuthenticated remote c))) task = Inr t
         | CallUpdateTask taskId updates \<Rightarrow>
             \<exists>t. out = OneTask (Plain t)
               \<and> postTaskUpdate remote (authorization (snd (ensureAuthenticated remote c)))
                     taskId updates = Inr t
         | CallDeleteTask taskId pid \<Rightarrow> out = Done
         | CallCompleteTask taskId pid \<Rightarrow>
             \<exists>t. out = OneTask (Plain t)
               \<and> postTaskComplete remote (authorization (snd (ensureAuthenticated remote c)))
                     pid taskId = Inr t
         | CallGetTaskById taskId pid \<Rightarrow>
             \<exists>t. out = OneTask (Plain t)
               \<and> getTaskAt remote (authorization (snd (ensureAuthenticated remote c)))
                     pid taskId = Inr t"
proof (cases call)
  case (CallGetTasks pid)
  then show ?thesis
    using assms
    by (auto simp: returning_def getTasks_def comp_def
        split: prod.splits sum.splits if_splits option.splits)
next
  case (CallGetOverdueTasks pid tz)
  then show ?thesis
    using assms
    by (auto simp: returning_def getOverdueTasks_def Let_def comp_def
        split: prod.splits sum.splits)
next
  case (CallGetTodaysTasks pid)
  then show ?thesis
    using assms
    by (auto simp: returning_def getTodaysTasks_def Let_def comp_def
        split: prod.splits sum.splits)
next
  case CallGetProjects
  then show ?thesis
    using assms by (auto simp: returning_def split: prod.splits sum.splits)
next
  case (CallCreateTask task)
  then show ?thesis
    using assms
    by (auto simp: returning_def createTask_def split: prod.splits sum.splits)
next
  case (CallUpdateTask tid updates)
  then show ?thesis
    using assms
    by (auto simp: returning_def updateTask_def split: prod.splits sum.splits)
next
  case (CallDeleteTask tid pid)
  then show ?thesis
    using assms
    by (auto simp: returning_def deleteTask_def split: prod.splits sum.splits)
next
  case (CallCompleteTask tid pid)
  then show ?thesis
    using assms
    by (auto simp: returning_def completeTask_def split: prod.splits sum.splits)
next
  case (CallGetTaskById tid pid)
  then show ?thesis
    using assms
    by (auto simp: returning_def getTaskById_def split: prod.splits sum.splits)
qed

theorem display_normalizer_scope_witness:
  "fst (perform exampleRemote exampleParse 1704974400000 (newClient tokenConfig)
          (CallGetTasks (Some ''pB'')))
     = Inr (Tasks (map (\<lambda>t. Display (enhanceTaskForDisplay t))
                     [exampleTask, exampleTask\<lparr>id' := ''t2''\<rparr>]))
   \<and> priorityText (enhanceTaskForDisplay exampleTask) = ''Medium''
   \<and> (\<exists>ts. Tasks (map (\<lambda>t. Display (enhanceTaskForDisplay t))
                     [exampleTask, exampleTask\<lparr>id' := ''t2''\<rparr>])
            = Tasks (map (\<lambda>t. Display (enhanceTaskForDisplay t)) ts))"
proof -
  have e: "fst (perform exampleRemote exampleParse 1704974400000 (newClient tokenConfig)
          (CallGetTasks (Some ''pB'')))
     = Inr (Tasks (map (\<lambda>t. Display (enhanceTaskForDisplay t))
                     [exampleTask, exampleTask\<lparr>id' := ''t2''\<rparr>]))"
    by (simp add: exampleRemote_def tokenConfig_def newClient_def client_eval comp_def)
  have p: "priorityText (enhanceTaskForDisplay exampleTask) = ''Medium''"
    by (simp add: enhanceTaskForDisplay_def exampleTask_def TickTickTask.defs EnhancedTask.defs)
  from display_normalizer_scope [OF e] e p show ?thesis by simp
qed

text \<open>
  C8 as stated fails for \<open>getTaskById\<close>: it returns \<open>response.data\<close>, a record without
  \<open>priorityText\<close>.
\<close>

theorem getTaskById_returns_plain_record:
  "fst (perform exampleRemote exampleParse 1704974400000 (newClient tokenConfig)
          (CallGetTaskById ''t1'' ''pB''))
     = Inr (OneTask (Plain exampleTask))
   \<and> returnedTasks (OneTask (Plain exampleTask)) = [Plain exampleTask]
   \<and> \<not> carriesPriorityText (Plain exampleTask)"
  by (simp add: exampleRemote_def tokenConfig_def newClient_def client_eval returnedTasks_def
      carriesPriorityText_def)

text \<open>
  C4.  The timezone offset has no effect: for every task, clock and pair of offsets,
  \<open>isTaskOverdue\<close> gives the same answer, in the all-day and in the timed comparison
  alike, and \<open>getOverdueTasks\<close>, which accepts the offset and passes it on, returns the
  same result and state.
\<close>

theorem timezoneOffsetHours_has_no_effect:
  "isTaskOverdue parse clock task offset1 = isTaskOverdue parse clock task offset2
   \<and> getOverdueTasks remote parse clock c pid offset1
       = getOverdueTasks remote parse clock c pid offset2"
proof -
  have h: "\<And>t a. isTaskOverdue parse clock t (Some a) = isTaskOverdue parse clock t None"
    by (simp add: isTaskOverdue_def)
  have "isTaskOverdue parse clock task offset1 = isTaskOverdue parse clock task offset2"
    by (simp add: isTaskOverdue_def)
  moreover have "getOverdueTasks remote parse clock c pid offset1
       = getOverdueTasks remote parse clock c pid offset2"
    unfolding getOverdueTasks_def h by (simp add: Let_def)
  ultimately show ?thesis by simp
qed

end
